theory Spec2Isabelle
  imports Main "HOL-Library.Sublist" "HOL-Library.Multiset"
begin

section \<open>Strings as byte lists\<close>

text \<open>
  A Go \<^verbatim>\<open>string\<close> is a sequence of bytes, modelled as \<^typ>\<open>string\<close>.
  The control and quote characters that occur in the format strings of the
  generator get names.
\<close>

definition TAB :: string where "TAB = [CHR 0x09]"
definition NL :: string where "NL = [CHR 0x0A]"
definition CR :: string where "CR = [CHR 0x0D]"
definition DQ :: string where "DQ = [CHR 0x22]"
definition SQ :: string where "SQ = [CHR 0x27]"

text \<open>
  \<^verbatim>\<open>strings.Split(s, sep)\<close> for a separator of one byte: the pieces between
  the occurrences of the separator; the empty string splits into one empty piece.
\<close>

fun Split :: "string \<Rightarrow> char \<Rightarrow> string list" where
  "Split [] sep = [[]]"
| "Split (c # cs) sep =
     (if c = sep then [] # Split cs sep
      else (case Split cs sep of p # ps \<Rightarrow> (c # p) # ps | [] \<Rightarrow> [[c]]))"

text \<open>\<^verbatim>\<open>strings.Replace(s, old, "", -1)\<close> for \<^verbatim>\<open>old\<close> of one byte.\<close>

definition Remove :: "char \<Rightarrow> string \<Rightarrow> string" where
  "Remove c s = filter (\<lambda>x. x \<noteq> c) s"

definition lowers :: string where "lowers = ''abcdefghijklmnopqrstuvwxyz''"
definition uppers :: string where "uppers = ''ABCDEFGHIJKLMNOPQRSTUVWXYZ''"
definition digits :: string where "digits = ''0123456789''"

definition upperASCII :: "char \<Rightarrow> char" where
  "upperASCII c = (case map_of (zip lowers uppers) c of Some u \<Rightarrow> u | None \<Rightarrow> c)"

definition lowerASCII :: "char \<Rightarrow> char" where
  "lowerASCII c = (case map_of (zip uppers lowers) c of Some l \<Rightarrow> l | None \<Rightarrow> c)"

text \<open>
  \<^verbatim>\<open>strings.ToUpper\<close> and \<^verbatim>\<open>bytes.ToUpper\<close> on an input of at most one byte,
  the only inputs \<^verbatim>\<open>MakeFirstUpperCase\<close> gives them. An ASCII byte is mapped by
  the ASCII table; a byte from 0x80 on is no UTF-8 sequence by itself, is decoded
  as U+FFFD and re-encoded as the three bytes EF BF BD.
\<close>

definition ToUpper1 :: "string \<Rightarrow> string" where
  "ToUpper1 s = concat (map (\<lambda>c. if digit7 c then [CHR 0xEF, CHR 0xBF, CHR 0xBD]
                                   else [upperASCII c]) s)"

text \<open>\<^verbatim>\<open>MakeFirstUpperCase\<close> (utils.go).\<close>

definition MakeFirstUpperCase :: "string \<Rightarrow> string" where
  "MakeFirstUpperCase s =
     (if length s < 2 then ToUpper1 s
      else ToUpper1 [hd s] @ tl s)"

text \<open>
  \<^verbatim>\<open>ToSnakeCase\<close> (utils.go). The regular expression \<^verbatim>\<open>([a-z0-9])([A-Z])\<close>
  replaced by \<^verbatim>\<open>${1}_${2}\<close> puts an underscore between a lower-case letter or
  digit and an upper-case letter that follows it (the two classes are disjoint,
  so no two matches overlap); then hyphens become underscores and the string is
  lower-cased. The lower-casing is the ASCII one: \<^verbatim>\<open>strings.ToLower\<close> also
  lower-cases the letters beyond ASCII and re-encodes a byte that is no UTF-8
  sequence as U+FFFD, which the model leaves as they are. The model is exact
  on ASCII input; the examples below are ASCII, and the general theorems hold
  for whatever \<open>ToSnakeCase\<close> computes.
\<close>

fun matchAllCap :: "string \<Rightarrow> string" where
  "matchAllCap (a # b # cs) =
     (if a \<in> set (lowers @ digits) \<and> b \<in> set uppers
      then a # CHR ''_'' # b # matchAllCap cs
      else a # matchAllCap (b # cs))"
| "matchAllCap cs = cs"

definition ToSnakeCase :: "string \<Rightarrow> string" where
  "ToSnakeCase input =
     map lowerASCII (map (\<lambda>c. if c = CHR ''-'' then CHR ''_'' else c) (matchAllCap input))"

text \<open>\<^verbatim>\<open>trimNSPrefix\<close> (utils.go).\<close>

definition trimNSPrefix :: "string \<Rightarrow> string" where
  "trimNSPrefix str =
     (let split = Split str (CHR '':'') in
      if length split = 2 then split ! 1 else str)"

text \<open>
  \<^verbatim>\<open>genFieldComment\<close> (utils.go). The replacer turns every newline of the
  documentation into CR LF, the prefix and a blank, and deletes every tab.
\<close>

definition docReplacer :: "string \<Rightarrow> string \<Rightarrow> string" where
  "docReplacer pfx doc =
     concat (map (\<lambda>c. if c = CHR 0x0A then CR @ NL @ pfx @ '' ''
                       else if c = CHR 0x09 then [] else [c]) doc)"

definition genFieldComment :: "string \<Rightarrow> string \<Rightarrow> string \<Rightarrow> string" where
  "genFieldComment name doc pfx =
     (if doc = [] then CR @ NL @ pfx @ '' '' @ name @ '' ...'' @ CR @ NL
      else CR @ NL @ pfx @ '' '' @ name @ '' is '' @ docReplacer pfx doc @ CR @ NL)"

section \<open>The built-in type table\<close>

text \<open>
  \<^verbatim>\<open>BuildInTypes\<close> (utils.go): one row of six spellings per XSD type name, in
  the column order Go, TypeScript, C, Java, Rust, Ruby.
\<close>

definition BuildInTypesList :: "(string \<times> string list) list" where
  "BuildInTypesList =
  [(''anyType'', [''string'', ''string'', ''char'', ''String'', ''String'', ''String'']),
   (''ENTITIES'', [''[]string'', ''Array<string>'', ''char[]'', ''List<String>'', ''Vec<String>'', ''Array'']),
   (''ENTITY'', [''string'', ''string'', ''char'', ''String'', ''String'', ''String'']),
   (''ID'', [''string'', ''string'', ''char'', ''String'', ''String'', ''String'']),
   (''IDREF'', [''string'', ''string'', ''char'', ''String'', ''String'', ''String'']),
   (''IDREFS'', [''[]string'', ''Array<string>'', ''char[]'', ''List<String>'', ''Vec<String>'', ''Array'']),
   (''NCName'', [''string'', ''string'', ''char'', ''String'', ''String'', ''String'']),
   (''NMTOKEN'', [''string'', ''string'', ''char'', ''String'', ''String'', ''String'']),
   (''NMTOKENS'', [''[]string'', ''Array<string>'', ''char[]'', ''List<String>'', ''Vec<String>'', ''Array'']),
   (''NOTATION'', [''[]string'', ''Array<string>'', ''char[]'', ''List<String>'', ''Vec<String>'', ''Array'']),
   (''Name'', [''string'', ''string'', ''char'', ''String'', ''String'', ''String'']),
   (''QName'', [''xml.Name'', ''any'', ''char'', ''String'', ''String'', ''String'']),
   (''anyURI'', [''string'', ''string'', ''char'', ''QName'', ''String'', ''String'']),
   (''base64Binary'', [''[]byte'', ''Uint8Array'', ''char[]'', ''List<Byte>'', ''String'', ''Array'']),
   (''boolean'', [''bool'', ''boolean'', ''bool'', ''Boolean'', ''bool'', ''Boolean'']),
   (''byte'', [''byte'', ''any'', ''char[]'', ''Byte'', ''u8'', ''String'']),
   (''date'', [''time.Time'', ''string'', ''char'', ''Byte'', ''u8'', ''Date'']),
   (''dateTime'', [''time.Time'', ''string'', ''char'', ''Byte'', ''u8'', ''DateTime'']),
   (''decimal'', [''float64'', ''number'', ''float'', ''Float'', ''f64'', ''Float'']),
   (''double'', [''float64'', ''number'', ''float'', ''Float'', ''f64'', ''Float'']),
   (''duration'', [''string'', ''string'', ''char'', ''String'', ''String'', ''String'']),
   (''float'', [''float'', ''number'', ''float'', ''Float'', ''f64'', ''Float'']),
   (''gDay'', [''time.Time'', ''string'', ''char'', ''String'', ''String'', ''String'']),
   (''gMonth'', [''time.Time'', ''string'', ''char'', ''String'', ''String'', ''String'']),
   (''gMonthDay'', [''time.Time'', ''string'', ''char'', ''String'', ''String'', ''String'']),
   (''gYear'', [''time.Time'', ''string'', ''char'', ''String'', ''String'', ''String'']),
   (''gYearMonth'', [''time.Time'', ''string'', ''char'', ''String'', ''String'', ''String'']),
   (''hexBinary'', [''[]byte'', ''Uint8Array'', ''char[]'', ''List<Byte>'', ''String'', ''Array'']),
   (''int'', [''int'', ''number'', ''int'', ''Integer'', ''i32'', ''Integer'']),
   (''integer'', [''int'', ''number'', ''int'', ''Integer'', ''i32'', ''Integer'']),
   (''language'', [''string'', ''string'', ''char'', ''String'', ''String'', ''String'']),
   (''long'', [''int64'', ''number'', ''int'', ''Long'', ''i64'', ''Integer'']),
   (''negativeInteger'', [''int'', ''number'', ''int'', ''Integer'', ''i32'', ''Integer'']),
   (''nonNegativeInteger'', [''int'', ''number'', ''int'', ''Integer'', ''u32'', ''Integer'']),
   (''normalizedString'', [''string'', ''string'', ''char'', ''String'', ''String'', ''String'']),
   (''nonPositiveInteger'', [''int'', ''number'', ''int'', ''Integer'', ''i32'', ''Integer'']),
   (''positiveInteger'', [''int'', ''number'', ''int'', ''Integer'', ''u32'', ''Integer'']),
   (''short'', [''int16'', ''number'', ''int'', ''Integer'', ''i16'', ''Integer'']),
   (''string'', [''string'', ''string'', ''char'', ''String'', ''String'', ''String'']),
   (''time'', [''time.Time'', ''string'', ''char'', ''String'', ''String'', ''Time'']),
   (''token'', [''string'', ''string'', ''char'', ''String'', ''String'', ''String'']),
   (''unsignedByte'', [''byte'', ''any'', ''char'', ''Byte'', ''u8'', ''String'']),
   (''unsignedInt'', [''uint32'', ''number'', ''unsigned int'', ''Integer'', ''u32'', ''Integer'']),
   (''unsignedLong'', [''uint64'', ''number'', ''unsigned int'', ''Long'', ''u64'', ''Bignum'']),
   (''unsignedShort'', [''uint16'', ''number'', ''unsigned int'', ''Short'', ''u16'', ''Integer'']),
   (''xml:lang'', [''string'', ''string'', ''char'', ''String'', ''String'', ''String'']),
   (''xml:space'', [''string'', ''string'', ''char'', ''String'', ''String'', ''String'']),
   (''xml:base'', [''string'', ''string'', ''char'', ''String'', ''String'', ''String'']),
   (''xml:id'', [''string'', ''string'', ''char'', ''String'', ''String'', ''String''])]"

definition BuildInTypes :: "string \<rightharpoonup> string list" where
  "BuildInTypes = map_of BuildInTypesList"

definition supportLangList :: "(string \<times> nat) list" where
  "supportLangList =
     [(''Go'', 0), (''TypeScript'', 1), (''C'', 2), (''Java'', 3), (''Rust'', 4), (''Ruby'', 5)]"

text \<open>
  Reading a Go map at a key it does not hold gives the zero value of the value
  type: \<^verbatim>\<open>supportLang[lang]\<close> is 0 for a language that is not a key.
\<close>

definition supportLang :: "string \<Rightarrow> nat" where
  "supportLang lang = (case map_of supportLangList lang of Some i \<Rightarrow> i | None \<Rightarrow> 0)"

datatype panic = IndexOutOfRange

text \<open>
  \<^verbatim>\<open>getBuildInTypeByLang\<close> (utils.go). The result is the pair of the two named
  results \<^verbatim>\<open>(buildType, ok)\<close>; indexing the row outside its length is the
  run-time panic of Go, a value of the model.
\<close>

definition getBuildInTypeByLang :: "string \<Rightarrow> string \<Rightarrow> panic + (string \<times> bool)" where
  "getBuildInTypeByLang val lang =
     (case BuildInTypes val of
        None \<Rightarrow> Inr ([], False)
      | Some buildInTypes \<Rightarrow>
          (if supportLang lang < length buildInTypes
           then Inr (buildInTypes ! supportLang lang, True)
           else Inl IndexOutOfRange))"

section \<open>The proto tree\<close>

text \<open>
  The node types of the proto tree, with the fields the generator and the
  resolver read. An \<^verbatim>\<open>Element\<close> and an \<^verbatim>\<open>Attribute\<close> carry a name, a
  documentation string, a type reference and the plurality flag; a \<^verbatim>\<open>Group\<close>
  holds groups again. \<^verbatim>\<open>MemberTypes\<close> is a Go map from member name to member
  type: the entries are listed with distinct keys, and the order in which a
  \<^verbatim>\<open>range\<close> visits them is chosen by the run, not by the list.
\<close>

record Attribute =
  aName :: string
  aDoc :: string
  aType :: string
  aPlural :: bool

record Element =
  eName :: string
  eDoc :: string
  eType :: string
  ePlural :: bool

datatype Group = Group (gName: string) (gDoc: string) (gRef: string) (gPlural: bool)
  (gElements: "Element list") (gGroups: "Group list")

record AttributeGroup =
  agName :: string
  agDoc :: string
  agRef :: string
  agAttributes :: "Attribute list"

record SimpleType =
  sName :: string
  sDoc :: string
  sBase :: string
  sList :: bool
  sUnion :: bool
  sMemberTypes :: "(string \<times> string) list"

record ComplexType =
  cName :: string
  cDoc :: string
  cAttributeGroup :: "AttributeGroup list"
  cAttributes :: "Attribute list"
  cGroups :: "Group list"
  cElements :: "Element list"

text \<open>
  An entry of \<^verbatim>\<open>ProtoTree []interface{}\<close>: nil, or a pointer to a node of one
  of the six kinds.
\<close>

datatype node =
    NilNode
  | SimpleTypeNode SimpleType
  | ComplexTypeNode ComplexType
  | GroupNode Group
  | AttributeGroupNode AttributeGroup
  | ElementNode Element
  | AttributeNode Attribute

section \<open>The type resolver\<close>

text \<open>
  \<^verbatim>\<open>getBasefromSimpleType\<close> (utils.go): one loop over the tree, with a type
  switch in its body; the first node whose case returns ends the loop.
\<close>

fun getBasefromSimpleType :: "string \<Rightarrow> node list \<Rightarrow> string" where
  "getBasefromSimpleType name [] = name"
| "getBasefromSimpleType name (ele # XSDSchema) =
     (case ele of
        SimpleTypeNode v \<Rightarrow>
          (if \<not> sList v \<and> \<not> sUnion v \<and> sName v = name then sBase v
           else getBasefromSimpleType name XSDSchema)
      | AttributeNode v \<Rightarrow>
          (if aName v = name then aType v else getBasefromSimpleType name XSDSchema)
      | ElementNode v \<Rightarrow>
          (if eName v = name then eType v else getBasefromSimpleType name XSDSchema)
      | _ \<Rightarrow> getBasefromSimpleType name XSDSchema)"

section \<open>Ruby identifiers and field types\<close>

definition rubyBuildinType :: "string list" where
  "rubyBuildinType =
     [''Array'', ''Decimal'', ''decimal'', ''Float'', ''float'', ''String'', ''string'',
      ''Time'', ''Date'', ''DateTime'', ''Integer'', ''Number'']"

text \<open>\<^verbatim>\<open>genRubyFieldName\<close>: the two loops add up the upper-cased pieces.\<close>

definition genRubyFieldName :: "string \<Rightarrow> string" where
  "genRubyFieldName name =
     (let fieldName = concat (map MakeFirstUpperCase (Split name (CHR '':'')));
          tmp = concat (map MakeFirstUpperCase (Split fieldName (CHR ''.'')))
      in Remove (CHR ''_'') (Remove (CHR ''-'') tmp))"

text \<open>\<^verbatim>\<open>genRubyFieldType\<close>.\<close>

definition genRubyFieldType :: "string \<Rightarrow> string" where
  "genRubyFieldType name =
     (if name \<in> set rubyBuildinType then name
      else
        (let fieldType = concat (map MakeFirstUpperCase (Split name (CHR ''.'')));
             fieldType = Remove (CHR ''_'') (MakeFirstUpperCase (Remove (CHR ''-'') fieldType))
         in if fieldType \<noteq> [] then fieldType else ''String''))"

text \<open>
  The expression every emitter uses for the type of a member or of an alias:
  \<^verbatim>\<open>genRubyFieldType(getBasefromSimpleType(trimNSPrefix(ref), gen.ProtoTree))\<close>.
\<close>

definition fieldType :: "string \<Rightarrow> node list \<Rightarrow> string" where
  "fieldType ref tree = genRubyFieldType (getBasefromSimpleType (trimNSPrefix ref) tree)"

section \<open>The generator state\<close>

text \<open>
  The fields of \<^verbatim>\<open>CodeGenerator\<close> that the Ruby generator reads and writes.
  \<^verbatim>\<open>StructAST\<close> is the cache from schema name to generated fragment,
  \<^verbatim>\<open>Field\<close> the accumulated text.
\<close>

record CodeGenerator =
  ProtoTree :: "node list"
  File :: string
  StructAST :: "string \<rightharpoonup> string"
  Field :: string
  ImportEncodingXML :: bool

text \<open>
  Go does not specify the order in which \<^verbatim>\<open>range\<close> visits the entries of a
  map, and the order may differ from one loop to the next. A run of the
  generator therefore takes the order as a parameter: a function that lists
  the entries of a map in the order the loop visits them. It is a
  \<open>rangeOrder\<close> when it only permutes the entries.
\<close>

type_synonym range_order = "(string \<times> string) list \<Rightarrow> (string \<times> string) list"

definition rangeOrder :: "range_order \<Rightarrow> bool" where
  "rangeOrder ro = (\<forall>m. mset (ro m) = mset m)"

section \<open>The Ruby emitters\<close>

text \<open>
  Every \<^verbatim>\<open>fmt.Sprintf\<close> of the source has \<^verbatim>\<open>%s\<close> verbs only and is the
  concatenation of the pieces of its format string with its arguments. The
  fragment of a node is computed by a function of its own, which follows the
  loops of the emitter; the emitter stores it in the cache and appends the
  declaration to \<^verbatim>\<open>Field\<close>. Where the source reads
  \<^verbatim>\<open>gen.StructAST[v.Name]\<close> right after storing \<open>content\<close> there, the model
  writes \<open>content\<close>.
\<close>

definition tagLine :: "string \<Rightarrow> string" where
  "tagLine name = TAB @ TAB @ ''tag '' @ DQ @ name @ DQ @ NL"

definition memberLine :: "string \<Rightarrow> string \<Rightarrow> string \<Rightarrow> string \<Rightarrow> string" where
  "memberLine plural fieldName ftype tag =
     TAB @ TAB @ plural @ '' :'' @ fieldName @ '', '' @ SQ @ ''OTA::'' @ ftype @ SQ
       @ '', tag: '' @ SQ @ tag @ SQ @ NL"

definition groupLine :: "string \<Rightarrow> string \<Rightarrow> string \<Rightarrow> string" where
  "groupLine fieldName plural ftype = TAB @ fieldName @ TAB @ plural @ ftype @ NL"

definition classHeader :: "string \<Rightarrow> string \<Rightarrow> string" where
  "classHeader fieldName doc =
     TAB @ genFieldComment fieldName doc ''#'' @ TAB @ ''class '' @ fieldName @ NL
       @ TAB @ TAB @ ''include XmlMapper'' @ NL @ NL"

definition unionMember :: "node list \<Rightarrow> string \<times> string \<Rightarrow> string" where
  "unionMember tree m =
     (let memberName = fst m;
          memberType = (if snd m = [] then getBasefromSimpleType memberName tree else snd m)
      in memberLine ''attribute'' (ToSnakeCase (genRubyFieldName memberName))
           (genRubyFieldType memberType) memberName)"

definition unionContent :: "range_order \<Rightarrow> node list \<Rightarrow> SimpleType \<Rightarrow> string" where
  "unionContent ro tree v =
     (if genRubyFieldName (sName v) \<noteq> sName v then tagLine (sName v) else [])
       @ concat (map (unionMember tree) (ro (sMemberTypes v)))
       @ TAB @ ''end'' @ NL"

text \<open>\<^verbatim>\<open>RubySimpleType\<close>.\<close>

definition RubySimpleType :: "range_order \<Rightarrow> CodeGenerator \<Rightarrow> SimpleType \<Rightarrow> CodeGenerator" where
  "RubySimpleType ro gen v =
     (if sList v \<and> StructAST gen (sName v) = None then
        (let fieldType = fieldType (sBase v) (ProtoTree gen);
             content = '' '' @ genRubyFieldType fieldType;
             fieldName = genRubyFieldName (sName v)
         in gen\<lparr>StructAST := (StructAST gen)(sName v \<mapsto> content),
                Field := Field gen @ genFieldComment fieldName (sDoc v) ''#'' @ NL
                  @ ''class '' @ fieldName @ '' < '' @ content @ ''; end'' @ NL\<rparr>)
      else if sUnion v \<and> length (sMemberTypes v) > 0 then
        (if StructAST gen (sName v) = None then
           (let fieldName = genRubyFieldName (sName v);
                content = unionContent ro (ProtoTree gen) v
            in gen\<lparr>ImportEncodingXML := (ImportEncodingXML gen \<or> fieldName \<noteq> sName v),
                   StructAST := (StructAST gen)(sName v \<mapsto> content),
                   Field := Field gen @ classHeader fieldName (sDoc v) @ content @ NL\<rparr>)
         else gen)
      else if StructAST gen (sName v) = None then
        (let content = '' '' @ fieldType (sBase v) (ProtoTree gen);
             fieldName = genRubyFieldName (sName v)
         in gen\<lparr>StructAST := (StructAST gen)(sName v \<mapsto> content),
                Field := Field gen @ TAB @ genFieldComment fieldName (sDoc v) ''#'' @ TAB
                  @ ''class '' @ fieldName @ '' <'' @ content @ ''; end'' @ NL\<rparr>)
      else gen)"

definition attrGroupMember :: "node list \<Rightarrow> AttributeGroup \<Rightarrow> string" where
  "attrGroupMember tree attrGroup =
     (let fieldType = getBasefromSimpleType (trimNSPrefix (agRef attrGroup)) tree
      in memberLine ''element'' (ToSnakeCase (genRubyFieldName (agName attrGroup)))
           (genRubyFieldType fieldType) (genRubyFieldName (agName attrGroup)))"

definition attributeMember :: "node list \<Rightarrow> Attribute \<Rightarrow> string" where
  "attributeMember tree attribute =
     (let plural = (if aPlural attribute then ''has_many'' else ''attribute'');
          fieldType = fieldType (aType attribute) tree
      in memberLine plural (ToSnakeCase (genRubyFieldName (aName attribute))) fieldType
           (aName attribute))"

definition elementMember :: "node list \<Rightarrow> Element \<Rightarrow> string" where
  "elementMember tree element =
     (let plural = (if ePlural element then ''has_many'' else ''element'');
          fieldType = fieldType (eType element) tree
      in memberLine plural (ToSnakeCase (genRubyFieldName (eName element))) fieldType
           (eName element))"

text \<open>
  A group member: \<^verbatim>\<open>var plural string; if group.Plural { plural = "" }\<close>.
\<close>

definition groupMember :: "node list \<Rightarrow> Group \<Rightarrow> string" where
  "groupMember tree grp =
     (let plural = (if gPlural grp then [] else [])
      in groupLine (ToSnakeCase (genRubyFieldName (gName grp))) plural
           (fieldType (gRef grp) tree))"

definition groupElementMember :: "node list \<Rightarrow> Element \<Rightarrow> string" where
  "groupElementMember tree element =
     (let plural = (if ePlural element then [] else [])
      in groupLine (ToSnakeCase (genRubyFieldName (eName element))) plural
           (fieldType (eType element) tree))"

definition complexTypeContent :: "node list \<Rightarrow> ComplexType \<Rightarrow> string" where
  "complexTypeContent tree v =
     (if genRubyFieldName (cName v) \<noteq> cName v then tagLine (cName v) else [])
       @ concat (map (attrGroupMember tree) (cAttributeGroup v))
       @ concat (map (attributeMember tree) (cAttributes v))
       @ concat (map (groupMember tree) (cGroups v))
       @ concat (map (elementMember tree) (cElements v))
       @ TAB @ ''end'' @ NL"

text \<open>\<^verbatim>\<open>RubyComplexType\<close>.\<close>

definition RubyComplexType :: "CodeGenerator \<Rightarrow> ComplexType \<Rightarrow> CodeGenerator" where
  "RubyComplexType gen v =
     (if StructAST gen (cName v) = None then
        (let fieldName = genRubyFieldName (cName v);
             content = complexTypeContent (ProtoTree gen) v
         in gen\<lparr>ImportEncodingXML := (ImportEncodingXML gen \<or> fieldName \<noteq> cName v),
                StructAST := (StructAST gen)(cName v \<mapsto> content),
                Field := Field gen @ classHeader fieldName (cDoc v) @ content\<rparr>)
      else gen)"

definition groupContent :: "node list \<Rightarrow> Group \<Rightarrow> string" where
  "groupContent tree v =
     (if genRubyFieldName (gName v) \<noteq> gName v then tagLine (gName v) else [])
       @ concat (map (groupElementMember tree) (gElements v))
       @ concat (map (groupMember tree) (gGroups v))
       @ TAB @ ''end'' @ NL"

text \<open>\<^verbatim>\<open>RubyGroup\<close>.\<close>

definition RubyGroup :: "CodeGenerator \<Rightarrow> Group \<Rightarrow> CodeGenerator" where
  "RubyGroup gen v =
     (if StructAST gen (gName v) = None then
        (let fieldName = genRubyFieldName (gName v);
             content = groupContent (ProtoTree gen) v
         in gen\<lparr>ImportEncodingXML := (ImportEncodingXML gen \<or> fieldName \<noteq> gName v),
                StructAST := (StructAST gen)(gName v \<mapsto> content),
                Field := Field gen @ classHeader fieldName (gDoc v) @ content\<rparr>)
      else gen)"

definition attributeGroupContent :: "node list \<Rightarrow> AttributeGroup \<Rightarrow> string" where
  "attributeGroupContent tree v =
     (if genRubyFieldName (agName v) \<noteq> agName v then tagLine (agName v) else [])
       @ concat (map (\<lambda>attribute.
            memberLine ''attribute'' (ToSnakeCase (genRubyFieldName (aName attribute)))
              (fieldType (aType attribute) tree) (aName attribute)) (agAttributes v))
       @ TAB @ ''end'' @ NL"

text \<open>\<^verbatim>\<open>RubyAttributeGroup\<close>.\<close>

definition RubyAttributeGroup :: "CodeGenerator \<Rightarrow> AttributeGroup \<Rightarrow> CodeGenerator" where
  "RubyAttributeGroup gen v =
     (if StructAST gen (agName v) = None then
        (let fieldName = genRubyFieldName (agName v);
             content = attributeGroupContent (ProtoTree gen) v
         in gen\<lparr>ImportEncodingXML := (ImportEncodingXML gen \<or> fieldName \<noteq> agName v),
                StructAST := (StructAST gen)(agName v \<mapsto> content),
                Field := Field gen @ classHeader fieldName (agDoc v) @ content\<rparr>)
      else gen)"

definition aliasContent :: "node list \<Rightarrow> string \<Rightarrow> bool \<Rightarrow> string" where
  "aliasContent tree ref isPlural =
     (let plural = fieldType ref tree;
          plural = (if isPlural then ''Array'' else plural)
      in '' < '' @ plural @ ''; '')"

definition aliasDecl :: "string \<Rightarrow> string \<Rightarrow> string \<Rightarrow> string" where
  "aliasDecl fieldName doc content =
     TAB @ genFieldComment fieldName doc ''#'' @ TAB @ ''class '' @ fieldName @ content
       @ ''end'' @ NL"

text \<open>\<^verbatim>\<open>RubyElement\<close>.\<close>

definition RubyElement :: "CodeGenerator \<Rightarrow> Element \<Rightarrow> CodeGenerator" where
  "RubyElement gen v =
     (if StructAST gen (eName v) = None then
        (let content = aliasContent (ProtoTree gen) (eType v) (ePlural v);
             fieldName = genRubyFieldName (eName v)
         in gen\<lparr>StructAST := (StructAST gen)(eName v \<mapsto> content),
                Field := Field gen @ aliasDecl fieldName (eDoc v) content\<rparr>)
      else gen)"

text \<open>\<^verbatim>\<open>RubyAttribute\<close>.\<close>

definition RubyAttribute :: "CodeGenerator \<Rightarrow> Attribute \<Rightarrow> CodeGenerator" where
  "RubyAttribute gen v =
     (if StructAST gen (aName v) = None then
        (let content = aliasContent (ProtoTree gen) (aType v) (aPlural v);
             fieldName = genRubyFieldName (aName v)
         in gen\<lparr>StructAST := (StructAST gen)(aName v \<mapsto> content),
                Field := Field gen @ aliasDecl fieldName (aDoc v) content\<rparr>)
      else gen)"

section \<open>The generation run\<close>

text \<open>
  The body of the loop of \<^verbatim>\<open>GenRuby\<close>: a nil entry is skipped; for any other
  entry the method named \<^verbatim>\<open>Ruby\<close> followed by the name of the node's type is
  looked up and called.
\<close>

fun callRuby :: "range_order \<Rightarrow> CodeGenerator \<Rightarrow> node \<Rightarrow> CodeGenerator" where
  "callRuby ro gen NilNode = gen"
| "callRuby ro gen (SimpleTypeNode v) = RubySimpleType ro gen v"
| "callRuby ro gen (ComplexTypeNode v) = RubyComplexType gen v"
| "callRuby ro gen (GroupNode v) = RubyGroup gen v"
| "callRuby ro gen (AttributeGroupNode v) = RubyAttributeGroup gen v"
| "callRuby ro gen (ElementNode v) = RubyElement gen v"
| "callRuby ro gen (AttributeNode v) = RubyAttribute gen v"

fun GenRubyLoop :: "range_order \<Rightarrow> CodeGenerator \<Rightarrow> node list \<Rightarrow> CodeGenerator" where
  "GenRubyLoop ro gen [] = gen"
| "GenRubyLoop ro gen (ele # rest) = GenRubyLoop ro (callRuby ro gen ele) rest"

text \<open>
  The file system is the environment of \<^verbatim>\<open>GenRuby\<close>: \<open>osCreate\<close> gives the
  error of \<^verbatim>\<open>os.Create\<close> on a path and \<open>fWrite\<close> the error of \<^verbatim>\<open>f.Write\<close> on
  the bytes, \<open>None\<close> for \<^verbatim>\<open>nil\<close>. The outcome holds the error \<^verbatim>\<open>GenRuby\<close>
  returns, what the write gave when it was reached (the source drops that
  value), and the generator state.
\<close>

type_synonym go_error = string

record outcome =
  returned :: "go_error option"
  writeResult :: "go_error option option"
  final :: CodeGenerator

definition rubySource :: "string \<Rightarrow> string" where
  "rubySource field =
     ''# frozen_string_literal: true'' @ NL @ NL @ ''# Code generated by xgen. DO NOT EDIT.''
       @ NL @ NL @ ''require '' @ SQ @ ''xmlmapper'' @ SQ @ NL @ NL @ ''module Ota'' @ NL @ TAB
       @ field @ NL @ ''end''"

definition GenRuby ::
  "range_order \<Rightarrow> (string \<Rightarrow> go_error option) \<Rightarrow> (string \<Rightarrow> go_error option)
     \<Rightarrow> CodeGenerator \<Rightarrow> outcome" where
  "GenRuby ro osCreate fWrite gen0 =
     (let gen = GenRubyLoop ro gen0 (ProtoTree gen0);
          err = osCreate (File gen @ ''.rb'')
      in if err \<noteq> None then \<lparr>returned = err, writeResult = None, final = gen\<rparr>
         else
           (let source = rubySource (Field gen);
                written = fWrite source
            in \<lparr>returned = err, writeResult = Some written, final = gen\<rparr>))"

section \<open>Properties of the built-in type table\<close>

lemma BuildInTypes_rows: "\<forall>kv \<in> set BuildInTypesList. length (snd kv) = 6"
  by (simp add: BuildInTypesList_def)

lemma BuildInTypes_row_length: "BuildInTypes val = Some row \<Longrightarrow> length row = 6"
  using BuildInTypes_rows by (auto simp: BuildInTypes_def dest!: map_of_SomeD)

lemma supportLang_le: "supportLang lang \<le> 5"
  by (simp add: supportLang_def supportLangList_def)

lemma supportLang_unknown:
  "lang \<notin> {''Go'', ''TypeScript'', ''C'', ''Java'', ''Rust'', ''Ruby''} \<Longrightarrow> supportLang lang = 0"
  by (simp add: supportLang_def supportLangList_def)

text \<open>
  Claim C9. A language that is none of Go, TypeScript, C, Java, Rust and Ruby is
  not reported as unknown: it reads column 0, so a type name of the table gives
  the Go spelling with \<open>ok = True\<close>. Every row has six entries and the index of
  every language \<open>l\<close> is at most five, so the lookup in the row never leaves
  the row: for every \<open>l\<close> it returns the entry of that column and no panic.
\<close>

theorem getBuildInTypeByLang_unknown_language:
  "lang \<notin> {''Go'', ''TypeScript'', ''C'', ''Java'', ''Rust'', ''Ruby''} \<Longrightarrow>
   BuildInTypes val = Some row \<Longrightarrow>
     getBuildInTypeByLang val lang = Inr (row ! 0, True) \<and> length row = 6
     \<and> supportLang l \<le> 5 \<and> getBuildInTypeByLang val l = Inr (row ! supportLang l, True)"
proof -
  assume u: "lang \<notin> {''Go'', ''TypeScript'', ''C'', ''Java'', ''Rust'', ''Ruby''}"
    and r: "BuildInTypes val = Some row"
  have len: "length row = 6" using r by (rule BuildInTypes_row_length)
  have z: "supportLang lang = 0" using u by (rule supportLang_unknown)
  have b: "supportLang l < length row" using supportLang_le [of l] len by simp
  show ?thesis using r len z b supportLang_le [of l]
    by (simp add: getBuildInTypeByLang_def)
qed

theorem getBuildInTypeByLang_unknown_language_witness:
  "getBuildInTypeByLang ''xml:id'' ''Klingon'' = Inr (''string'', True)
   \<and> getBuildInTypeByLang ''xml:id'' ''Ruby'' = Inr (''String'', True)"
proof -
  have u: "''Klingon'' \<notin> {''Go'', ''TypeScript'', ''C'', ''Java'', ''Rust'', ''Ruby''}"
    by simp
  have r: "BuildInTypes ''xml:id''
      = Some [''string'', ''string'', ''char'', ''String'', ''String'', ''String'']"
    by code_simp
  have s: "supportLang ''Ruby'' = 5" by code_simp
  show ?thesis
    using getBuildInTypeByLang_unknown_language [OF u r, of "''Ruby''"] s by simp
qed

section \<open>Properties of the field type\<close>

text \<open>
  The normalization in the words of the specification: the first letter of
  every piece between dots is upper-cased, then every hyphen and every
  underscore is removed. \<open>genRubyFieldType\<close> itself upper-cases the first
  letter once more between the two removals.
\<close>

definition specNormalize :: "string \<Rightarrow> string" where
  "specNormalize name =
     Remove (CHR ''_'') (Remove (CHR ''-'')
       (concat (map MakeFirstUpperCase (Split name (CHR ''.'')))))"

lemma upperASCII_underscore: "upperASCII c = CHR ''_'' \<longleftrightarrow> c = CHR ''_''"
  by (auto simp: upperASCII_def lowers_def uppers_def split: if_splits)

lemma Remove_MakeFirstUpperCase_empty:
  "Remove (CHR ''_'') (MakeFirstUpperCase s) = [] \<longleftrightarrow> Remove (CHR ''_'') s = []"
proof (cases s)
  case Nil
  then show ?thesis by (simp add: MakeFirstUpperCase_def ToUpper1_def)
next
  case (Cons c cs)
  have "MakeFirstUpperCase (c # cs) = ToUpper1 [c] @ cs"
    by (cases cs) (simp_all add: MakeFirstUpperCase_def ToUpper1_def)
  then show ?thesis using Cons
    by (auto simp: ToUpper1_def Remove_def upperASCII_underscore)
qed

lemma rubyBuildinType_nonempty: "name \<in> set rubyBuildinType \<Longrightarrow> name \<noteq> []"
  by (auto simp: rubyBuildinType_def)

text \<open>
  Claim C10. \<open>genRubyFieldType\<close> never returns the empty string. For a name
  that is no Ruby built-in spelling and whose normalization is empty, the empty
  name among them, it returns the default \<open>String\<close>.
\<close>

theorem genRubyFieldType_never_empty:
  "genRubyFieldType name \<noteq> []
   \<and> (name \<notin> set rubyBuildinType \<and> specNormalize name = []
        \<longrightarrow> genRubyFieldType name = ''String'')
   \<and> genRubyFieldType [] = ''String''"
proof (intro conjI impI)
  show "genRubyFieldType name \<noteq> []"
    using rubyBuildinType_nonempty [of name]
    by (auto simp: genRubyFieldType_def Let_def)
next
  assume a: "name \<notin> set rubyBuildinType \<and> specNormalize name = []"
  then have "Remove (CHR ''_'') (MakeFirstUpperCase (Remove (CHR ''-'')
      (concat (map MakeFirstUpperCase (Split name (CHR ''.'')))))) = []"
    by (simp add: specNormalize_def Remove_MakeFirstUpperCase_empty)
  with a show "genRubyFieldType name = ''String''"
    by (simp add: genRubyFieldType_def Let_def)
next
  show "genRubyFieldType [] = ''String''" by code_simp
qed

theorem genRubyFieldType_never_empty_witness:
  "''-_.'' \<notin> set rubyBuildinType \<and> specNormalize ''-_.'' = []
   \<and> genRubyFieldType ''-_.'' = ''String''"
proof -
  have a: "''-_.'' \<notin> set rubyBuildinType \<and> specNormalize ''-_.'' = []" by code_simp
  show ?thesis using genRubyFieldType_never_empty [of "''-_.''"] a by blast
qed

section \<open>Properties of the resolver\<close>

text \<open>
  What the type switch of \<open>getBasefromSimpleType\<close> returns at one node, if the
  case of that node returns at all.
\<close>

fun returnsAt :: "string \<Rightarrow> node \<Rightarrow> string option" where
  "returnsAt name (SimpleTypeNode v) =
     (if \<not> sList v \<and> \<not> sUnion v \<and> sName v = name then Some (sBase v) else None)"
| "returnsAt name (AttributeNode v) = (if aName v = name then Some (aType v) else None)"
| "returnsAt name (ElementNode v) = (if eName v = name then Some (eType v) else None)"
| "returnsAt name _ = None"

definition exCodeAttribute :: Attribute where
  "exCodeAttribute = \<lparr>aName = ''Code'', aDoc = [], aType = ''xs:int'', aPlural = False\<rparr>"

definition exCodeSimpleType :: SimpleType where
  "exCodeSimpleType =
     \<lparr>sName = ''Code'', sDoc = [], sBase = ''string'', sList = False, sUnion = False,
      sMemberTypes = []\<rparr>"

definition exCodeComplexType :: ComplexType where
  "exCodeComplexType =
     \<lparr>cName = ''Code'', cDoc = [], cAttributeGroup = [], cAttributes = [], cGroups = [],
      cElements = []\<rparr>"

lemma getBase_skip:
  "returnsAt name n = None \<Longrightarrow>
     getBasefromSimpleType name (n # tree) = getBasefromSimpleType name tree"
  by (cases n) (auto split: if_splits)

lemma getBase_hit:
  "returnsAt name n = Some b \<Longrightarrow> getBasefromSimpleType name (n # tree) = b"
  by (cases n) (auto split: if_splits)

lemma getBase_no_match:
  "\<forall>n \<in> set tree. returnsAt name n = None \<Longrightarrow> getBasefromSimpleType name tree = name"
  by (induction tree) (simp_all add: getBase_skip del: getBasefromSimpleType.simps(2))

lemma getBase_first_match:
  "\<forall>n \<in> set pre. returnsAt name n = None \<Longrightarrow> returnsAt name n = Some b \<Longrightarrow>
     getBasefromSimpleType name (pre @ n # post) = b"
  by (induction pre)
    (simp_all add: getBase_skip getBase_hit del: getBasefromSimpleType.simps(2))

text \<open>
  Claim C3 says that a SimpleType match takes precedence over an Attribute or
  Element match wherever the nodes stand. The loop returns at the first node
  that matches, of whatever kind: with an Attribute \<open>Code\<close> of type \<open>xs:int\<close>
  before a plain SimpleType \<open>Code\<close> of base \<open>string\<close>, the result is the type
  of the Attribute, not the base of the SimpleType.
\<close>

theorem getBasefromSimpleType_attribute_before_simpleType:
  "getBasefromSimpleType ''Code''
     [AttributeNode exCodeAttribute, SimpleTypeNode exCodeSimpleType] = ''xs:int''
   \<and> getBasefromSimpleType ''Code''
     [AttributeNode exCodeAttribute, SimpleTypeNode exCodeSimpleType] \<noteq> sBase exCodeSimpleType
   \<and> sName exCodeSimpleType = ''Code'' \<and> \<not> sList exCodeSimpleType
   \<and> \<not> sUnion exCodeSimpleType"
  by code_simp

text \<open>
  Claim C3 as amended: the result is decided by the first node in tree order at
  which the switch returns, a SimpleType of that name that is neither list nor
  union (its base), or an Attribute or Element of that name (its type); when
  the switch returns at no node, the name comes back unchanged.
\<close>

theorem getBasefromSimpleType_first_match_wins:
  "((\<forall>n \<in> set tree. returnsAt name n = None) \<longrightarrow> getBasefromSimpleType name tree = name)
   \<and> ((\<forall>n \<in> set pre. returnsAt name n = None) \<and> returnsAt name m = Some b
        \<longrightarrow> getBasefromSimpleType name (pre @ m # post) = b)"
  using getBase_no_match getBase_first_match by blast

theorem getBasefromSimpleType_first_match_wins_witness:
  "getBasefromSimpleType ''Code''
     [ComplexTypeNode exCodeComplexType, SimpleTypeNode exCodeSimpleType,
      AttributeNode exCodeAttribute] = ''string''
   \<and> getBasefromSimpleType ''Other''
     [SimpleTypeNode exCodeSimpleType, AttributeNode exCodeAttribute] = ''Other''"
proof -
  have 1: "\<forall>n \<in> set [ComplexTypeNode exCodeComplexType]. returnsAt ''Code'' n = None"
    by simp
  have 2: "returnsAt ''Code'' (SimpleTypeNode exCodeSimpleType) = Some ''string''"
    by code_simp
  have 3: "\<forall>n \<in> set [SimpleTypeNode exCodeSimpleType, AttributeNode exCodeAttribute].
      returnsAt ''Other'' n = None"
    by (simp add: exCodeSimpleType_def exCodeAttribute_def)
  have a: "getBasefromSimpleType ''Other''
      [SimpleTypeNode exCodeSimpleType, AttributeNode exCodeAttribute] = ''Other''"
    using getBasefromSimpleType_first_match_wins
      [of "[SimpleTypeNode exCodeSimpleType, AttributeNode exCodeAttribute]" "''Other''"] 3
    by blast
  have b: "getBasefromSimpleType ''Code''
      ([ComplexTypeNode exCodeComplexType] @ SimpleTypeNode exCodeSimpleType
         # [AttributeNode exCodeAttribute]) = ''string''"
    using getBasefromSimpleType_first_match_wins
      [of _ "''Code''" "[ComplexTypeNode exCodeComplexType]"
        "SimpleTypeNode exCodeSimpleType" "''string''"] 1 2
    by blast
  show ?thesis using a b by simp
qed

definition exStringSimpleType :: SimpleType where
  "exStringSimpleType =
     \<lparr>sName = ''string'', sDoc = [], sBase = ''Foo'', sList = False, sUnion = False,
      sMemberTypes = []\<rparr>"

lemma rubyColumn_fixed:
  "\<forall>kv \<in> set BuildInTypesList.
     trimNSPrefix (snd kv ! 5) = snd kv ! 5 \<and> genRubyFieldType (snd kv ! 5) = snd kv ! 5"
  by code_simp

lemma rubyColumn_passes:
  "BuildInTypes val = Some row \<Longrightarrow>
     trimNSPrefix (row ! 5) = row ! 5 \<and> genRubyFieldType (row ! 5) = row ! 5"
  using rubyColumn_fixed by (auto simp: BuildInTypes_def dest!: map_of_SomeD)

lemma genRubyFieldType_builtin:
  "name \<in> set rubyBuildinType \<Longrightarrow> genRubyFieldType name = name"
  by (simp add: genRubyFieldType_def)

text \<open>
  Claim C5 says that the field type of a reference to an XSD built-in name is
  the Ruby spelling of the table, found without a scan of the tree.
  \<open>fieldType\<close> scans the tree first and never reads the table: \<open>string\<close>
  gives \<open>string\<close> where the table has \<open>String\<close>, \<open>positiveInteger\<close> gives
  \<open>PositiveInteger\<close> where the table has \<open>Integer\<close>, and a SimpleType named
  \<open>string\<close> with base \<open>Foo\<close> turns the field type of \<open>string\<close> into \<open>Foo\<close>.
\<close>

theorem fieldType_ignores_BuildInTypes:
  "getBuildInTypeByLang ''string'' ''Ruby'' = Inr (''String'', True)
   \<and> fieldType ''string'' [] = ''string''
   \<and> fieldType ''string'' [SimpleTypeNode exStringSimpleType] = ''Foo''
   \<and> getBuildInTypeByLang ''positiveInteger'' ''Ruby'' = Inr (''Integer'', True)
   \<and> fieldType ''positiveInteger'' [] = ''PositiveInteger''"
  by code_simp

text \<open>
  Claim C5 as amended: \<open>fieldType\<close>, the expression the emitters apply to
  the type reference of a member, of a top-level alias and of the base of a
  SimpleType, never reads the table and is decided by the tree first. When the
  switch of the resolver returns at a node for the reference stripped of its
  prefix, the first such node decides: the field type is \<open>genRubyFieldType\<close>
  of the base or type of that node, for a built-in name as for any other. Only
  when the switch returns at no node is the field type \<open>genRubyFieldType\<close> of
  the stripped reference, whatever else the tree holds; that is the reference
  itself when it is one of the Ruby spellings of \<open>rubyBuildinType\<close>, and also
  when it is the Ruby column of a row of the table.
\<close>

theorem fieldType_first_match_then_name:
  "((\<forall>n \<in> set pre. returnsAt (trimNSPrefix ref) n = None)
      \<and> returnsAt (trimNSPrefix ref) m = Some b
      \<longrightarrow> fieldType ref (pre @ m # post) = genRubyFieldType b)
   \<and> ((\<forall>n \<in> set tree. returnsAt (trimNSPrefix ref) n = None) \<longrightarrow>
     fieldType ref tree = genRubyFieldType (trimNSPrefix ref)
     \<and> (trimNSPrefix ref \<in> set rubyBuildinType \<longrightarrow> fieldType ref tree = trimNSPrefix ref)
     \<and> (\<forall>val row. BuildInTypes val = Some row \<and> ref = row ! 5 \<longrightarrow> fieldType ref tree = ref))"
proof (intro conjI impI)
  assume "(\<forall>n \<in> set pre. returnsAt (trimNSPrefix ref) n = None)
      \<and> returnsAt (trimNSPrefix ref) m = Some b"
  then have "getBasefromSimpleType (trimNSPrefix ref) (pre @ m # post) = b"
    using getBase_first_match [of pre "trimNSPrefix ref" m b post] by blast
  then show "fieldType ref (pre @ m # post) = genRubyFieldType b"
    by (simp add: fieldType_def)
next
  assume h: "\<forall>n \<in> set tree. returnsAt (trimNSPrefix ref) n = None"
  show "fieldType ref tree = genRubyFieldType (trimNSPrefix ref)"
    using getBase_no_match [OF h] by (simp add: fieldType_def)
next
  assume h: "\<forall>n \<in> set tree. returnsAt (trimNSPrefix ref) n = None"
    and r: "trimNSPrefix ref \<in> set rubyBuildinType"
  show "fieldType ref tree = trimNSPrefix ref"
    using getBase_no_match [OF h] genRubyFieldType_builtin [OF r] by (simp add: fieldType_def)
next
  assume h: "\<forall>n \<in> set tree. returnsAt (trimNSPrefix ref) n = None"
  have e: "fieldType ref tree = genRubyFieldType (trimNSPrefix ref)"
    using getBase_no_match [OF h] by (simp add: fieldType_def)
  show "\<forall>val row. BuildInTypes val = Some row \<and> ref = row ! 5 \<longrightarrow> fieldType ref tree = ref"
    using e rubyColumn_passes by auto
qed

theorem fieldType_first_match_then_name_witness:
  "fieldType ''string'' [AttributeNode exCodeAttribute, SimpleTypeNode exStringSimpleType] = ''Foo''
   \<and> fieldType ''Integer'' [SimpleTypeNode exStringSimpleType] = ''Integer''
   \<and> fieldType ''xs:string'' [] = ''string''"
proof -
  have 1: "\<forall>n \<in> set [SimpleTypeNode exStringSimpleType].
      returnsAt (trimNSPrefix ''Integer'') n = None"
    by code_simp
  have 2: "BuildInTypes ''int''
      = Some [''int'', ''number'', ''int'', ''Integer'', ''i32'', ''Integer'']"
    by code_simp
  have 3: "\<forall>n \<in> set []. returnsAt (trimNSPrefix ''xs:string'') n = None" by simp
  have 4: "trimNSPrefix ''xs:string'' \<in> set rubyBuildinType" by code_simp
  have 5: "trimNSPrefix ''xs:string'' = ''string''" by code_simp
  have 6: "\<forall>n \<in> set [AttributeNode exCodeAttribute]. returnsAt (trimNSPrefix ''string'') n = None"
    by code_simp
  have 7: "returnsAt (trimNSPrefix ''string'') (SimpleTypeNode exStringSimpleType) = Some ''Foo''"
    by code_simp
  have 8: "genRubyFieldType ''Foo'' = ''Foo''" by code_simp
  have a: "fieldType ''Integer'' [SimpleTypeNode exStringSimpleType] = ''Integer''"
    using fieldType_first_match_then_name
      [of _ "''Integer''" _ _ _ "[SimpleTypeNode exStringSimpleType]"] 1 2
    by force
  have b: "fieldType ''xs:string'' [] = ''string''"
    using fieldType_first_match_then_name [of _ "''xs:string''" _ _ _ "[]"] 3 4 5 by metis
  have c: "fieldType ''string''
      ([AttributeNode exCodeAttribute] @ SimpleTypeNode exStringSimpleType # []) = ''Foo''"
    using fieldType_first_match_then_name
      [of "[AttributeNode exCodeAttribute]" "''string''" "SimpleTypeNode exStringSimpleType"
        "''Foo''" "[]"] 6 7 8
    by metis
  show ?thesis using a b c by simp
qed

section \<open>Properties of the generation run\<close>

text \<open>
  Claim C1 says that \<open>GenRuby\<close> returns an error whenever creating the file or
  writing to it fails. The error of \<^verbatim>\<open>os.Create\<close> is returned, but the value
  of \<^verbatim>\<open>f.Write\<close> is dropped and the \<^verbatim>\<open>err\<close> returned at the end is still the
  nil of the create: when the create succeeds and the write fails with \<open>e\<close>,
  \<open>GenRuby\<close> returns nil.
\<close>

theorem GenRuby_drops_write_error:
  "returned (GenRuby ro (\<lambda>path. None) (\<lambda>bytes. Some e) gen) = None
   \<and> writeResult (GenRuby ro (\<lambda>path. None) (\<lambda>bytes. Some e) gen) = Some (Some e)
   \<and> returned (GenRuby ro (\<lambda>path. Some e) fWrite gen) = Some e"
  by (simp add: GenRuby_def Let_def)

section \<open>What one call of an emitter does\<close>

text \<open>
  The name under which a node is cached, the fragment an emitter stores for it
  and the declaration it appends to \<open>Field\<close>, as functions of the node and of
  the tree the resolver reads. They are read off the emitters; \<open>callRuby_fresh\<close>
  below proves that a call on a name that is not yet cached does exactly this.
\<close>

fun nodeName :: "node \<Rightarrow> string option" where
  "nodeName NilNode = None"
| "nodeName (SimpleTypeNode v) = Some (sName v)"
| "nodeName (ComplexTypeNode v) = Some (cName v)"
| "nodeName (GroupNode v) = Some (gName v)"
| "nodeName (AttributeGroupNode v) = Some (agName v)"
| "nodeName (ElementNode v) = Some (eName v)"
| "nodeName (AttributeNode v) = Some (aName v)"

fun fragment :: "range_order \<Rightarrow> node list \<Rightarrow> node \<Rightarrow> string" where
  "fragment ro tree NilNode = []"
| "fragment ro tree (SimpleTypeNode v) =
     (if sList v then '' '' @ genRubyFieldType (fieldType (sBase v) tree)
      else if sUnion v \<and> length (sMemberTypes v) > 0 then unionContent ro tree v
      else '' '' @ fieldType (sBase v) tree)"
| "fragment ro tree (ComplexTypeNode v) = complexTypeContent tree v"
| "fragment ro tree (GroupNode v) = groupContent tree v"
| "fragment ro tree (AttributeGroupNode v) = attributeGroupContent tree v"
| "fragment ro tree (ElementNode v) = aliasContent tree (eType v) (ePlural v)"
| "fragment ro tree (AttributeNode v) = aliasContent tree (aType v) (aPlural v)"

fun declOf :: "range_order \<Rightarrow> node list \<Rightarrow> node \<Rightarrow> string" where
  "declOf ro tree NilNode = []"
| "declOf ro tree (SimpleTypeNode v) =
     (if sList v then
        genFieldComment (genRubyFieldName (sName v)) (sDoc v) ''#'' @ NL @ ''class ''
          @ genRubyFieldName (sName v) @ '' < '' @ fragment ro tree (SimpleTypeNode v)
          @ ''; end'' @ NL
      else if sUnion v \<and> length (sMemberTypes v) > 0 then
        classHeader (genRubyFieldName (sName v)) (sDoc v)
          @ fragment ro tree (SimpleTypeNode v) @ NL
      else
        TAB @ genFieldComment (genRubyFieldName (sName v)) (sDoc v) ''#'' @ TAB @ ''class ''
          @ genRubyFieldName (sName v) @ '' <'' @ fragment ro tree (SimpleTypeNode v)
          @ ''; end'' @ NL)"
| "declOf ro tree (ComplexTypeNode v) =
     classHeader (genRubyFieldName (cName v)) (cDoc v) @ complexTypeContent tree v"
| "declOf ro tree (GroupNode v) =
     classHeader (genRubyFieldName (gName v)) (gDoc v) @ groupContent tree v"
| "declOf ro tree (AttributeGroupNode v) =
     classHeader (genRubyFieldName (agName v)) (agDoc v) @ attributeGroupContent tree v"
| "declOf ro tree (ElementNode v) =
     aliasDecl (genRubyFieldName (eName v)) (eDoc v) (aliasContent tree (eType v) (ePlural v))"
| "declOf ro tree (AttributeNode v) =
     aliasDecl (genRubyFieldName (aName v)) (aDoc v) (aliasContent tree (aType v) (aPlural v))"

text \<open>
  The kinds of node whose declOf is a class with members; the other kinds
  are declared as an alias, a class that inherits from the resolved type.
\<close>

fun isComposite :: "node \<Rightarrow> bool" where
  "isComposite (SimpleTypeNode v) = (\<not> sList v \<and> sUnion v \<and> length (sMemberTypes v) > 0)"
| "isComposite (ComplexTypeNode v) = True"
| "isComposite (GroupNode v) = True"
| "isComposite (AttributeGroupNode v) = True"
| "isComposite _ = False"

text \<open>
  The nodes at which the loop of \<open>GenRuby\<close> finds the name not yet cached,
  when \<open>seen\<close> are the names cached before the loop: the first node of every
  name outside \<open>seen\<close>, in tree order.
\<close>

fun firstReached :: "string list \<Rightarrow> node list \<Rightarrow> node list" where
  "firstReached seen [] = []"
| "firstReached seen (n # ns) =
     (case nodeName n of
        None \<Rightarrow> firstReached seen ns
      | Some x \<Rightarrow>
          (if x \<in> set seen then firstReached seen ns
           else n # firstReached (x # seen) ns))"

lemma callRuby_cached:
  "nodeName n = Some x \<Longrightarrow> StructAST gen x \<noteq> None \<Longrightarrow> callRuby ro gen n = gen"
  by (cases n) (auto simp: RubySimpleType_def RubyComplexType_def RubyGroup_def
      RubyAttributeGroup_def RubyElement_def RubyAttribute_def)

lemma callRuby_fresh:
  "nodeName n = Some x \<Longrightarrow> StructAST gen x = None \<Longrightarrow>
     callRuby ro gen n =
       gen\<lparr>StructAST := (StructAST gen)(x \<mapsto> fragment ro (ProtoTree gen) n),
           Field := Field gen @ declOf ro (ProtoTree gen) n,
           ImportEncodingXML := (ImportEncodingXML gen \<or> (isComposite n \<and> genRubyFieldName x \<noteq> x))\<rparr>"
  by (cases n) (auto simp: RubySimpleType_def RubyComplexType_def RubyGroup_def
      RubyAttributeGroup_def RubyElement_def RubyAttribute_def Let_def)


lemma callRuby_Nil: "nodeName n = None \<Longrightarrow> callRuby ro gen n = gen"
  by (cases n) simp_all

lemma ProtoTree_callRuby: "ProtoTree (callRuby ro gen n) = ProtoTree gen"
proof (cases "nodeName n")
  case None
  then show ?thesis by (simp add: callRuby_Nil)
next
  case (Some x)
  then show ?thesis
    by (cases "StructAST gen x") (simp_all add: callRuby_fresh callRuby_cached)
qed

lemma StructAST_callRuby_keeps:
  "StructAST gen x = Some c \<Longrightarrow> StructAST (callRuby ro gen n) x = Some c"
proof (cases "nodeName n")
  case None
  assume "StructAST gen x = Some c"
  with None show ?thesis by (simp add: callRuby_Nil)
next
  case (Some y)
  assume a: "StructAST gen x = Some c"
  show ?thesis
  proof (cases "StructAST gen y")
    case None
    with a have "x \<noteq> y" by auto
    with a None Some show ?thesis by (simp add: callRuby_fresh)
  next
    case (Some d)
    with a \<open>nodeName n = Some y\<close> show ?thesis by (simp add: callRuby_cached)
  qed
qed

lemma StructAST_loop_keeps:
  "StructAST gen x = Some c \<Longrightarrow> StructAST (GenRubyLoop ro gen nodes) x = Some c"
  by (induction nodes arbitrary: gen) (simp_all add: StructAST_callRuby_keeps)

lemma ProtoTree_loop: "ProtoTree (GenRubyLoop ro gen nodes) = ProtoTree gen"
  by (induction nodes arbitrary: gen) (simp_all add: ProtoTree_callRuby)

lemma firstReached_cong:
  "set seen = set seen' \<Longrightarrow> firstReached seen nodes = firstReached seen' nodes"
proof (induction nodes arbitrary: seen seen')
  case Nil
  then show ?case by simp
next
  case (Cons n ns)
  show ?case
  proof (cases "nodeName n")
    case None
    then show ?thesis using Cons.IH [OF Cons.prems] by simp
  next
    case (Some x)
    have "set (x # seen) = set (x # seen')" using Cons.prems by simp
    then have "firstReached (x # seen) ns = firstReached (x # seen') ns" by (rule Cons.IH)
    then show ?thesis using Some Cons.IH [OF Cons.prems] Cons.prems by simp
  qed
qed

lemma loop_Field:
  "set seen = dom (StructAST gen) \<Longrightarrow>
     Field (GenRubyLoop ro gen nodes)
       = Field gen @ concat (map (declOf ro (ProtoTree gen)) (firstReached seen nodes))"
proof (induction nodes arbitrary: gen seen)
  case Nil
  then show ?case by simp
next
  case (Cons n ns)
  show ?case
  proof (cases "nodeName n")
    case None
    then show ?thesis using Cons.IH [OF Cons.prems] by (simp add: callRuby_Nil)
  next
    case (Some x)
    show ?thesis
    proof (cases "StructAST gen x")
      case None
      have f: "callRuby ro gen n =
        gen\<lparr>StructAST := (StructAST gen)(x \<mapsto> fragment ro (ProtoTree gen) n),
            Field := Field gen @ declOf ro (ProtoTree gen) n,
            ImportEncodingXML := (ImportEncodingXML gen \<or> (isComposite n \<and> genRubyFieldName x \<noteq> x))\<rparr>"
        using Some None by (rule callRuby_fresh)
      have s: "set (x # seen) = dom (StructAST (callRuby ro gen n))"
        using Cons.prems by (simp add: f)
      have nx: "x \<notin> set seen" using None Cons.prems by auto
      show ?thesis using Cons.IH [OF s] Some nx by (simp add: f)
    next
      case (Some c)
      have "x \<in> set seen" using Some Cons.prems by auto
      moreover have "callRuby ro gen n = gen"
        using \<open>nodeName n = Some x\<close> Some by (simp add: callRuby_cached)
      ultimately show ?thesis using Cons.IH [OF Cons.prems] \<open>nodeName n = Some x\<close> by simp
    qed
  qed
qed

lemma firstReached_names:
  "n \<in> set (firstReached seen nodes) \<Longrightarrow> \<exists>x. nodeName n = Some x \<and> x \<notin> set seen"
proof (induction nodes arbitrary: seen)
  case Nil
  then show ?case by simp
next
  case (Cons m ms)
  show ?case
  proof (cases "nodeName m")
    case None
    then show ?thesis using Cons by simp
  next
    case (Some y)
    show ?thesis
    proof (cases "y \<in> set seen")
      case True
      then show ?thesis using Cons Some by simp
    next
      case False
      then have "n = m \<or> n \<in> set (firstReached (y # seen) ms)"
        using Cons.prems Some by simp
      then show ?thesis
      proof
        assume "n = m"
        then show ?thesis using Some False by simp
      next
        assume "n \<in> set (firstReached (y # seen) ms)"
        then obtain x where "nodeName n = Some x \<and> x \<notin> set (y # seen)"
          using Cons.IH by blast
        then show ?thesis by simp
      qed
    qed
  qed
qed

lemma firstReached_distinct: "distinct (map nodeName (firstReached seen nodes))"
proof (induction nodes arbitrary: seen)
  case Nil
  then show ?case by simp
next
  case (Cons m ms)
  show ?case
  proof (cases "nodeName m")
    case None
    then show ?thesis using Cons.IH by simp
  next
    case (Some x)
    have "Some x \<notin> nodeName ` set (firstReached (x # seen) ms)"
      using firstReached_names [of _ "x # seen" ms] by force
    then show ?thesis using Some Cons.IH by simp
  qed
qed

section \<open>Emission once per name\<close>

text \<open>A generator at the start of a run: nothing cached, nothing emitted.\<close>

definition newGenerator :: "node list \<Rightarrow> CodeGenerator" where
  "newGenerator tree =
     \<lparr>ProtoTree = tree, File = ''schema'', StructAST = Map.empty, Field = [],
      ImportEncodingXML = False\<rparr>"

text \<open>A file system on which the create and the write succeed.\<close>

definition noError :: "string \<Rightarrow> go_error option" where
  "noError s = None"

text \<open>The names of the nodes of a list, in order; a nil entry has none.\<close>

fun nodeNames :: "node list \<Rightarrow> string list" where
  "nodeNames [] = []"
| "nodeNames (n # ns) =
     (case nodeName n of None \<Rightarrow> nodeNames ns | Some x \<Rightarrow> x # nodeNames ns)"

definition exElementA1 :: Element where
  "exElementA1 = \<lparr>eName = ''A'', eDoc = [], eType = ''xs:string'', ePlural = False\<rparr>"

definition exElementA2 :: Element where
  "exElementA2 = \<lparr>eName = ''A'', eDoc = ''again'', eType = ''xs:int'', ePlural = True\<rparr>"

definition exSimpleTypeA :: SimpleType where
  "exSimpleTypeA =
     \<lparr>sName = ''A'', sDoc = [], sBase = ''xs:decimal'', sList = True, sUnion = False,
      sMemberTypes = []\<rparr>"

definition exElementB :: Element where
  "exElementB = \<lparr>eName = ''B'', eDoc = [], eType = ''A'', ePlural = False\<rparr>"

definition exTreeAB :: "node list" where
  "exTreeAB =
     [ElementNode exElementA1, NilNode, ElementNode exElementA2, SimpleTypeNode exSimpleTypeA,
      ElementNode exElementB, ElementNode exElementA1]"

definition exCodeElement :: Element where
  "exCodeElement = \<lparr>eName = ''Code'', eDoc = [], eType = ''xs:string'', ePlural = False\<rparr>"

definition exTreeCode :: "node list" where
  "exTreeCode =
     [ElementNode exElementB, ElementNode exCodeElement, AttributeNode exCodeAttribute,
      SimpleTypeNode exCodeSimpleType]"

text \<open>A ComplexType \<open>Code\<close> with one element \<open>code\<close> of type \<open>Code\<close>.\<close>

definition exSelfCode :: ComplexType where
  "exSelfCode =
     \<lparr>cName = ''Code'', cDoc = [], cAttributeGroup = [], cAttributes = [], cGroups = [],
      cElements = [\<lparr>eName = ''code'', eDoc = [], eType = ''Code'', ePlural = False\<rparr>]\<rparr>"

lemma GenRuby_final:
  "final (GenRuby ro osCreate fWrite gen) = GenRubyLoop ro gen (ProtoTree gen)"
  by (simp add: GenRuby_def Let_def)

lemma GenRubyLoop_append:
  "GenRubyLoop ro gen (xs @ ys) = GenRubyLoop ro (GenRubyLoop ro gen xs) ys"
  by (induction xs arbitrary: gen) simp_all

lemma StructAST_callRuby_dom:
  "nodeName n = Some x \<Longrightarrow> dom (StructAST (callRuby ro gen n)) = insert x (dom (StructAST gen))"
proof (cases "StructAST gen x")
  case None
  assume "nodeName n = Some x"
  with None show ?thesis by (simp add: callRuby_fresh)
next
  case (Some c)
  assume "nodeName n = Some x"
  with Some show ?thesis by (auto simp: callRuby_cached)
qed

lemma StructAST_callRuby_dom_Nil:
  "nodeName n = None \<Longrightarrow> dom (StructAST (callRuby ro gen n)) = dom (StructAST gen)"
  by (simp add: callRuby_Nil)

lemma StructAST_loop_dom:
  "dom (StructAST (GenRubyLoop ro gen nodes)) = set (nodeNames nodes) \<union> dom (StructAST gen)"
proof (induction nodes arbitrary: gen)
  case Nil
  then show ?case by simp
next
  case (Cons n ns)
  show ?case
  proof (cases "nodeName n")
    case None
    then show ?thesis using Cons.IH [of "callRuby ro gen n"]
      by (simp add: StructAST_callRuby_dom_Nil)
  next
    case (Some x)
    then show ?thesis using Cons.IH [of "callRuby ro gen n"]
      by (simp add: StructAST_callRuby_dom)
  qed
qed

lemma firstReached_append:
  "firstReached seen (xs @ ys)
     = firstReached seen xs @ firstReached (nodeNames xs @ seen) ys"
proof (induction xs arbitrary: seen)
  case Nil
  then show ?case by simp
next
  case (Cons n ns)
  show ?case
  proof (cases "nodeName n")
    case None
    then show ?thesis using Cons.IH by simp
  next
    case (Some x)
    show ?thesis
    proof (cases "x \<in> set seen")
      case True
      have "firstReached (nodeNames ns @ seen) ys = firstReached (x # nodeNames ns @ seen) ys"
        using True by (intro firstReached_cong) auto
      then show ?thesis using Some True Cons.IH [of seen] by simp
    next
      case False
      have "firstReached (nodeNames ns @ x # seen) ys
          = firstReached (x # nodeNames ns @ seen) ys"
        by (intro firstReached_cong) auto
      then show ?thesis using Some False Cons.IH [of "x # seen"] by simp
    qed
  qed
qed

lemma firstReached_drop_repeated:
  "nodeName n = Some x \<Longrightarrow> x \<in> set seen \<Longrightarrow>
     firstReached seen (mid @ n # rest) = firstReached seen (mid @ rest)"
  by (simp add: firstReached_append)

lemma firstReached_two_carriers:
  assumes n1: "nodeName n1 = Some x" and n2: "nodeName n2 = Some x"
    and fresh: "x \<notin> set seen" and pre: "x \<notin> set (nodeNames pre)"
  shows "firstReached seen (pre @ n1 # mid @ n2 # rest)
     = firstReached seen pre @ n1 # firstReached (x # nodeNames pre @ seen) (mid @ rest)"
proof -
  have "firstReached (nodeNames pre @ seen) (n1 # mid @ n2 # rest)
      = n1 # firstReached (x # nodeNames pre @ seen) (mid @ n2 # rest)"
    using n1 fresh pre by simp
  moreover have "firstReached (x # nodeNames pre @ seen) (mid @ n2 # rest)
      = firstReached (x # nodeNames pre @ seen) (mid @ rest)"
    using firstReached_drop_repeated [OF n2, of "x # nodeNames pre @ seen" mid rest] by simp
  ultimately show ?thesis by (simp add: firstReached_append)
qed

lemma loop_StructAST:
  "set seen = dom (StructAST gen) \<Longrightarrow> n \<in> set (firstReached seen nodes) \<Longrightarrow>
   nodeName n = Some x \<Longrightarrow>
     StructAST (GenRubyLoop ro gen nodes) x = Some (fragment ro (ProtoTree gen) n)"
proof (induction nodes arbitrary: gen seen)
  case Nil
  then show ?case by simp
next
  case (Cons m ms)
  show ?case
  proof (cases "nodeName m")
    case None
    then show ?thesis using Cons.IH [OF Cons.prems(1)] Cons.prems(2,3)
      by (simp add: callRuby_Nil)
  next
    case (Some y)
    show ?thesis
    proof (cases "StructAST gen y")
      case None
      have f: "callRuby ro gen m =
        gen\<lparr>StructAST := (StructAST gen)(y \<mapsto> fragment ro (ProtoTree gen) m),
            Field := Field gen @ declOf ro (ProtoTree gen) m,
            ImportEncodingXML :=
              (ImportEncodingXML gen \<or> (isComposite m \<and> genRubyFieldName y \<noteq> y))\<rparr>"
        using Some None by (rule callRuby_fresh)
      have s: "set (y # seen) = dom (StructAST (callRuby ro gen m))"
        using Cons.prems(1) by (simp add: f)
      have ny: "y \<notin> set seen" using None Cons.prems(1) by auto
      have "n = m \<or> n \<in> set (firstReached (y # seen) ms)"
        using Cons.prems(2) Some ny by simp
      then show ?thesis
      proof
        assume e: "n = m"
        then have "x = y" using Some Cons.prems(3) by simp
        then have "StructAST (callRuby ro gen m) x = Some (fragment ro (ProtoTree gen) n)"
          using e by (simp add: f)
        then show ?thesis by (simp add: StructAST_loop_keeps)
      next
        assume "n \<in> set (firstReached (y # seen) ms)"
        then show ?thesis using Cons.IH [OF s _ Cons.prems(3)]
          by (simp add: ProtoTree_callRuby)
      qed
    next
      case (Some c)
      have "y \<in> set seen" using Some Cons.prems(1) by auto
      moreover have "callRuby ro gen m = gen"
        using \<open>nodeName m = Some y\<close> Some by (simp add: callRuby_cached)
      ultimately show ?thesis
        using Cons.IH [OF Cons.prems(1)] Cons.prems(2,3) \<open>nodeName m = Some y\<close> by simp
    qed
  qed
qed

text \<open>
  Claim C6 says that a pass appends at most one declaration for a name and
  that its content is the same however many nodes carry the name. The first
  half holds; the second does not, because the declaration is computed against
  the whole tree, and a later node that carries the name is part of the tree
  the resolver scans. The tree with the ComplexType \<open>Code\<close> alone and the tree
  with an Attribute \<open>Code\<close> of type \<open>xs:int\<close> after it both emit one
  declaration, from the same node, but its member \<open>code\<close> has the type
  \<open>Code\<close> in the first run and \<open>Xs:int\<close> in the second.
\<close>

theorem declaration_changes_with_later_carrier:
  "firstReached [] [ComplexTypeNode exSelfCode, AttributeNode exCodeAttribute]
     = [ComplexTypeNode exSelfCode]
   \<and> firstReached [] [ComplexTypeNode exSelfCode] = [ComplexTypeNode exSelfCode]
   \<and> Field (final (GenRuby id noError noError (newGenerator [ComplexTypeNode exSelfCode])))
     \<noteq> Field (final (GenRuby id noError noError
          (newGenerator [ComplexTypeNode exSelfCode, AttributeNode exCodeAttribute])))
   \<and> sublist ''OTA::Code''
        (Field (final (GenRuby id noError noError (newGenerator [ComplexTypeNode exSelfCode]))))
   \<and> sublist ''OTA::Xs:int''
        (Field (final (GenRuby id noError noError
          (newGenerator [ComplexTypeNode exSelfCode, AttributeNode exCodeAttribute]))))"
  by code_simp

text \<open>
  Claim C6 as amended. Every emitter looks the name of its node up in
  \<open>StructAST\<close> first and leaves the generator as it is when the name is
  cached; an entry of the cache is never overwritten during a pass; the text a
  pass appends to \<open>Field\<close> is one declaration for each node of
  \<open>firstReached\<close>, whose names are pairwise distinct, so at most one
  declaration per name. In a run of \<open>GenRuby\<close> that starts with an empty
  cache, the declaration and the cached fragment of a name are those of the
  first node of the tree that carries it, computed against the whole tree of
  the run.
\<close>

theorem emission_once_per_name:
  "(nodeName n = Some x \<and> StructAST gen x \<noteq> None \<longrightarrow> callRuby ro gen n = gen)
   \<and> (StructAST gen x = Some c \<longrightarrow> StructAST (GenRubyLoop ro gen nodes) x = Some c)
   \<and> (set seen = dom (StructAST gen) \<longrightarrow>
        Field (GenRubyLoop ro gen nodes)
          = Field gen @ concat (map (declOf ro (ProtoTree gen)) (firstReached seen nodes))
        \<and> distinct (map nodeName (firstReached seen nodes)))
   \<and> (StructAST gen = Map.empty \<longrightarrow>
        Field (final (GenRuby ro osCreate fWrite gen))
          = Field gen
              @ concat (map (declOf ro (ProtoTree gen)) (firstReached [] (ProtoTree gen)))
        \<and> (\<forall>m y. m \<in> set (firstReached [] (ProtoTree gen)) \<and> nodeName m = Some y
              \<longrightarrow> StructAST (final (GenRuby ro osCreate fWrite gen)) y
                    = Some (fragment ro (ProtoTree gen) m)))"
proof (intro conjI impI allI)
  assume "nodeName n = Some x \<and> StructAST gen x \<noteq> None"
  then show "callRuby ro gen n = gen" using callRuby_cached [of n x gen ro] by blast
next
  assume "StructAST gen x = Some c"
  then show "StructAST (GenRubyLoop ro gen nodes) x = Some c" by (rule StructAST_loop_keeps)
next
  assume "set seen = dom (StructAST gen)"
  then show "Field (GenRubyLoop ro gen nodes)
      = Field gen @ concat (map (declOf ro (ProtoTree gen)) (firstReached seen nodes))"
    by (rule loop_Field)
next
  show "distinct (map nodeName (firstReached seen nodes))" by (rule firstReached_distinct)
next
  assume e: "StructAST gen = Map.empty"
  then have s: "set [] = dom (StructAST gen)" by simp
  show "Field (final (GenRuby ro osCreate fWrite gen))
      = Field gen @ concat (map (declOf ro (ProtoTree gen)) (firstReached [] (ProtoTree gen)))"
    using loop_Field [OF s] by (simp add: GenRuby_final)
next
  fix m y
  assume e: "StructAST gen = Map.empty"
    and m: "m \<in> set (firstReached [] (ProtoTree gen)) \<and> nodeName m = Some y"
  have s: "set [] = dom (StructAST gen)" using e by simp
  show "StructAST (final (GenRuby ro osCreate fWrite gen)) y
      = Some (fragment ro (ProtoTree gen) m)"
    using loop_StructAST [OF s, of m "ProtoTree gen" y ro] m by (simp add: GenRuby_final)
qed

theorem emission_once_per_name_witness:
  "firstReached [] exTreeAB = [ElementNode exElementA1, ElementNode exElementB]
   \<and> Field (final (GenRuby id noError noError (newGenerator exTreeAB)))
       = declOf id exTreeAB (ElementNode exElementA1) @ declOf id exTreeAB (ElementNode exElementB)
   \<and> StructAST (final (GenRuby id noError noError (newGenerator exTreeAB))) ''A''
       = Some (fragment id exTreeAB (ElementNode exElementA1))"
proof -
  have s: "StructAST (newGenerator exTreeAB) = Map.empty"
    by (simp add: newGenerator_def)
  have p: "ProtoTree (newGenerator exTreeAB) = exTreeAB \<and> Field (newGenerator exTreeAB) = []"
    by (simp add: newGenerator_def)
  have f: "firstReached [] exTreeAB = [ElementNode exElementA1, ElementNode exElementB]"
    by code_simp
  have n: "nodeName (ElementNode exElementA1) = Some ''A''" by code_simp
  have t: "Field (final (GenRuby id noError noError (newGenerator exTreeAB)))
        = Field (newGenerator exTreeAB)
            @ concat (map (declOf id (ProtoTree (newGenerator exTreeAB)))
                (firstReached [] (ProtoTree (newGenerator exTreeAB))))
      \<and> (\<forall>m y. m \<in> set (firstReached [] (ProtoTree (newGenerator exTreeAB)))
              \<and> nodeName m = Some y
            \<longrightarrow> StructAST (final (GenRuby id noError noError (newGenerator exTreeAB))) y
                  = Some (fragment id (ProtoTree (newGenerator exTreeAB)) m))"
    using emission_once_per_name
      [of _ _ "newGenerator exTreeAB" id _ _ _ noError noError] s
    by blast
  have a: "Field (final (GenRuby id noError noError (newGenerator exTreeAB)))
      = declOf id exTreeAB (ElementNode exElementA1) @ declOf id exTreeAB (ElementNode exElementB)"
    using t by (simp add: p f del: declOf.simps)
  have b: "StructAST (final (GenRuby id noError noError (newGenerator exTreeAB))) ''A''
      = Some (fragment id exTreeAB (ElementNode exElementA1))"
    using t n by (simp add: p f del: fragment.simps nodeName.simps)
  show ?thesis using f a b by blast
qed

text \<open>
  Claim C8. The cache is keyed by the name alone. Let two nodes \<open>n1\<close> and
  \<open>n2\<close>, of any kinds, carry the same name \<open>x\<close>, with \<open>n1\<close> the first node
  of that name the pass reaches: \<open>x\<close> is not cached at the start and no node
  of \<open>pre\<close> carries it. Then the pass over \<open>pre\<close>, \<open>n1\<close>, \<open>mid\<close>, \<open>n2\<close>,
  \<open>rest\<close> appends the declaration of \<open>n1\<close> after those of \<open>pre\<close> and then
  what \<open>mid\<close> and \<open>rest\<close> alone append; it caches the fragment of \<open>n1\<close>
  under \<open>x\<close>; and the call on \<open>n2\<close> leaves the generator as it is. This is
  so for the run of \<open>GenRuby\<close> when the node list is the tree of the run.
\<close>

theorem cache_keyed_by_name_alone:
  "nodeName n1 = Some x \<Longrightarrow> nodeName n2 = Some x \<Longrightarrow> set seen = dom (StructAST gen) \<Longrightarrow>
   x \<notin> set seen \<Longrightarrow> x \<notin> set (nodeNames pre) \<Longrightarrow>
     Field (GenRubyLoop ro gen (pre @ n1 # mid @ n2 # rest))
       = Field gen @ concat (map (declOf ro (ProtoTree gen)) (firstReached seen pre))
           @ declOf ro (ProtoTree gen) n1
           @ concat (map (declOf ro (ProtoTree gen))
               (firstReached (x # nodeNames pre @ seen) (mid @ rest)))
     \<and> StructAST (GenRubyLoop ro gen (pre @ n1 # mid @ n2 # rest)) x
         = Some (fragment ro (ProtoTree gen) n1)
     \<and> Field (callRuby ro (GenRubyLoop ro gen pre) n1)
         = Field (GenRubyLoop ro gen pre) @ declOf ro (ProtoTree gen) n1
     \<and> dom (StructAST (callRuby ro (GenRubyLoop ro gen pre) n1))
         = insert x (dom (StructAST (GenRubyLoop ro gen pre)))
     \<and> callRuby ro (GenRubyLoop ro gen (pre @ n1 # mid)) n2
         = GenRubyLoop ro gen (pre @ n1 # mid)
     \<and> GenRubyLoop ro gen (pre @ n1 # mid @ n2 # rest)
         = GenRubyLoop ro gen (pre @ n1 # mid @ rest)
     \<and> (ProtoTree gen = pre @ n1 # mid @ n2 # rest \<longrightarrow>
          Field (final (GenRuby ro osCreate fWrite gen))
            = Field gen @ concat (map (declOf ro (ProtoTree gen)) (firstReached seen pre))
                @ declOf ro (ProtoTree gen) n1
                @ concat (map (declOf ro (ProtoTree gen))
                    (firstReached (x # nodeNames pre @ seen) (mid @ rest)))
          \<and> StructAST (final (GenRuby ro osCreate fWrite gen)) x
              = Some (fragment ro (ProtoTree gen) n1))"
proof -
  assume n1: "nodeName n1 = Some x" and n2: "nodeName n2 = Some x"
    and seen: "set seen = dom (StructAST gen)"
    and fresh: "x \<notin> set seen" and pre: "x \<notin> set (nodeNames pre)"
  let ?D = "declOf ro (ProtoTree gen)"
  let ?g0 = "GenRubyLoop ro gen pre"
  let ?all = "pre @ n1 # mid @ n2 # rest"
  have fr: "firstReached seen ?all
      = firstReached seen pre @ n1 # firstReached (x # nodeNames pre @ seen) (mid @ rest)"
    using n1 n2 fresh pre by (rule firstReached_two_carriers)
  have A: "Field (GenRubyLoop ro gen ?all)
      = Field gen @ concat (map ?D (firstReached seen pre)) @ ?D n1
          @ concat (map ?D (firstReached (x # nodeNames pre @ seen) (mid @ rest)))"
    using loop_Field [OF seen, of ro ?all] by (simp add: fr)
  have mem: "n1 \<in> set (firstReached seen ?all)" by (simp add: fr)
  have B: "StructAST (GenRubyLoop ro gen ?all) x = Some (fragment ro (ProtoTree gen) n1)"
    using seen mem n1 by (rule loop_StructAST)
  have g0: "StructAST ?g0 x = None"
  proof -
    have "x \<notin> dom (StructAST ?g0)"
      using fresh pre seen by (simp add: StructAST_loop_dom)
    then show ?thesis by auto
  qed
  have C: "Field (callRuby ro ?g0 n1) = Field ?g0 @ ?D n1"
    using n1 g0 by (simp add: callRuby_fresh ProtoTree_loop)
  have c1: "StructAST (callRuby ro ?g0 n1) x = Some (fragment ro (ProtoTree gen) n1)"
    using n1 g0 by (simp add: callRuby_fresh ProtoTree_loop)
  have k: "StructAST (GenRubyLoop ro (callRuby ro ?g0 n1) mid) x
      = Some (fragment ro (ProtoTree gen) n1)"
    using c1 by (rule StructAST_loop_keeps)
  have e: "GenRubyLoop ro gen (pre @ n1 # mid) = GenRubyLoop ro (callRuby ro ?g0 n1) mid"
    by (simp add: GenRubyLoop_append)
  have E: "callRuby ro (GenRubyLoop ro gen (pre @ n1 # mid)) n2
      = GenRubyLoop ro gen (pre @ n1 # mid)"
    using n2 k by (simp add: e callRuby_cached)
  have "GenRubyLoop ro gen ?all
      = GenRubyLoop ro (callRuby ro (GenRubyLoop ro gen (pre @ n1 # mid)) n2) rest"
    using GenRubyLoop_append [of ro gen "pre @ n1 # mid" "n2 # rest"] by simp
  also have "\<dots> = GenRubyLoop ro gen (pre @ n1 # mid @ rest)"
    using GenRubyLoop_append [of ro gen "pre @ n1 # mid" rest] by (simp add: E)
  finally have F: "GenRubyLoop ro gen ?all = GenRubyLoop ro gen (pre @ n1 # mid @ rest)" .
  have G: "ProtoTree gen = ?all \<longrightarrow>
      Field (final (GenRuby ro osCreate fWrite gen))
        = Field gen @ concat (map ?D (firstReached seen pre)) @ ?D n1
            @ concat (map ?D (firstReached (x # nodeNames pre @ seen) (mid @ rest)))
      \<and> StructAST (final (GenRuby ro osCreate fWrite gen)) x
          = Some (fragment ro (ProtoTree gen) n1)"
  proof
    assume t: "ProtoTree gen = ?all"
    have "final (GenRuby ro osCreate fWrite gen) = GenRubyLoop ro gen ?all"
      using t by (simp add: GenRuby_final)
    then show "Field (final (GenRuby ro osCreate fWrite gen))
        = Field gen @ concat (map ?D (firstReached seen pre)) @ ?D n1
            @ concat (map ?D (firstReached (x # nodeNames pre @ seen) (mid @ rest)))
      \<and> StructAST (final (GenRuby ro osCreate fWrite gen)) x
          = Some (fragment ro (ProtoTree gen) n1)"
      using A B by simp
  qed
  show ?thesis
    using A B C StructAST_callRuby_dom [OF n1, of ro ?g0] E F G by blast
qed

theorem cache_keyed_by_name_alone_witness:
  "Field (final (GenRuby id noError noError (newGenerator exTreeCode)))
     = declOf id exTreeCode (ElementNode exElementB)
         @ declOf id exTreeCode (ElementNode exCodeElement)
   \<and> StructAST (final (GenRuby id noError noError (newGenerator exTreeCode))) ''Code''
     = Some (fragment id exTreeCode (ElementNode exCodeElement))
   \<and> declOf id exTreeCode (ElementNode exCodeElement)
     = TAB @ CR @ NL @ ''# Code ...'' @ CR @ NL @ TAB @ ''class Code < string; end'' @ NL"
proof -
  have 1: "nodeName (ElementNode exCodeElement) = Some ''Code''" by code_simp
  have 2: "nodeName (SimpleTypeNode exCodeSimpleType) = Some ''Code''" by code_simp
  have 3: "set [] = dom (StructAST (newGenerator exTreeCode))"
    by (simp add: newGenerator_def)
  have 4: "''Code'' \<notin> set []" by simp
  have 5: "''Code'' \<notin> set (nodeNames [ElementNode exElementB])" by code_simp
  have p: "ProtoTree (newGenerator exTreeCode) = exTreeCode
      \<and> Field (newGenerator exTreeCode) = []"
    by (simp add: newGenerator_def)
  have t: "exTreeCode
      = [ElementNode exElementB] @ ElementNode exCodeElement # [AttributeNode exCodeAttribute]
          @ SimpleTypeNode exCodeSimpleType # []"
    by (simp add: exTreeCode_def)
  have f1: "firstReached [] [ElementNode exElementB] = [ElementNode exElementB]"
    by code_simp
  have f2: "firstReached (''Code'' # nodeNames [ElementNode exElementB] @ [])
      ([AttributeNode exCodeAttribute] @ []) = []"
    by code_simp
  have d: "declOf id exTreeCode (ElementNode exCodeElement)
      = TAB @ CR @ NL @ ''# Code ...'' @ CR @ NL @ TAB @ ''class Code < string; end'' @ NL"
    by code_simp
  have u: "Field (final (GenRuby id noError noError (newGenerator exTreeCode)))
        = Field (newGenerator exTreeCode)
            @ concat (map (declOf id (ProtoTree (newGenerator exTreeCode)))
                (firstReached [] [ElementNode exElementB]))
            @ declOf id (ProtoTree (newGenerator exTreeCode)) (ElementNode exCodeElement)
            @ concat (map (declOf id (ProtoTree (newGenerator exTreeCode)))
                (firstReached (''Code'' # nodeNames [ElementNode exElementB] @ [])
                  ([AttributeNode exCodeAttribute] @ [])))
      \<and> StructAST (final (GenRuby id noError noError (newGenerator exTreeCode))) ''Code''
          = Some (fragment id (ProtoTree (newGenerator exTreeCode)) (ElementNode exCodeElement))"
    using cache_keyed_by_name_alone [OF 1 2 3 4 5, of id "[AttributeNode exCodeAttribute]" "[]"
        noError noError] p t
    by presburger
  have a: "Field (final (GenRuby id noError noError (newGenerator exTreeCode)))
      = declOf id exTreeCode (ElementNode exElementB)
          @ declOf id exTreeCode (ElementNode exCodeElement)"
    using u unfolding f1 f2 by (simp add: p del: declOf.simps)
  have b: "StructAST (final (GenRuby id noError noError (newGenerator exTreeCode))) ''Code''
      = Some (fragment id exTreeCode (ElementNode exCodeElement))"
    using u by (simp add: p del: fragment.simps)
  show ?thesis using a b d by blast
qed

section \<open>Tags, plurality and the order of union members\<close>

definition exCustomerId :: Element where
  "exCustomerId =
     \<lparr>eName = ''customer-id'', eDoc = [], eType = ''string'', ePlural = False\<rparr>"

definition exCustomerOrder :: ComplexType where
  "exCustomerOrder =
     \<lparr>cName = ''customer-order'', cDoc = [], cAttributeGroup = [], cAttributes = [],
      cGroups = [], cElements = [exCustomerId]\<rparr>"

definition exTreeOrder :: "node list" where
  "exTreeOrder = [ComplexTypeNode exCustomerOrder]"

definition exTreeAttribute :: "node list" where
  "exTreeAttribute = [AttributeNode exCodeAttribute]"

definition exGroupPlural :: Group where
  "exGroupPlural =
     Group ''items'' [] [] False
       [\<lparr>eName = ''item'', eDoc = [], eType = ''Product'', ePlural = True\<rparr>]
       [Group ''extras'' [] ''Extras'' True [] []]"

definition exGroupSingular :: Group where
  "exGroupSingular =
     Group ''items'' [] [] False
       [\<lparr>eName = ''item'', eDoc = [], eType = ''Product'', ePlural = False\<rparr>]
       [Group ''extras'' [] ''Extras'' False [] []]"

definition exCurrency :: SimpleType where
  "exCurrency =
     \<lparr>sName = ''Currency'', sDoc = [], sBase = [], sList = False, sUnion = True,
      sMemberTypes = [(''USD'', []), (''EUR'', [])]\<rparr>"

lemma sublist_middle: "sublist xs (ps @ xs @ ss)"
  by (auto simp: sublist_def)

lemma composite_fragment:
  "nodeName n = Some x \<Longrightarrow> isComposite n \<Longrightarrow> genRubyFieldName x \<noteq> x \<Longrightarrow>
     \<exists>rest. fragment ro tree n = tagLine x @ rest"
  by (cases n)
    (auto simp: unionContent_def complexTypeContent_def groupContent_def
      attributeGroupContent_def)

lemma composite_declOf:
  "nodeName n = Some x \<Longrightarrow> isComposite n \<Longrightarrow>
     \<exists>hd tl. declOf ro tree n = hd @ fragment ro tree n @ tl"
proof (cases n)
  case (SimpleTypeNode v)
  assume "isComposite n"
  with SimpleTypeNode show ?thesis by auto
next
  case (ComplexTypeNode v)
  have "declOf ro tree n
      = classHeader (genRubyFieldName (cName v)) (cDoc v) @ fragment ro tree n @ []"
    using ComplexTypeNode by simp
  then show ?thesis by blast
next
  case (GroupNode v)
  have "declOf ro tree n
      = classHeader (genRubyFieldName (gName v)) (gDoc v) @ fragment ro tree n @ []"
    using GroupNode by simp
  then show ?thesis by blast
next
  case (AttributeGroupNode v)
  have "declOf ro tree n
      = classHeader (genRubyFieldName (agName v)) (agDoc v) @ fragment ro tree n @ []"
    using AttributeGroupNode by simp
  then show ?thesis by blast
next
  case NilNode
  assume "isComposite n"
  with NilNode show ?thesis by simp
next
  case (ElementNode v)
  assume "isComposite n"
  with ElementNode show ?thesis by simp
next
  case (AttributeNode v)
  assume "isComposite n"
  with AttributeNode show ?thesis by simp
qed

text \<open>
  Claim C4 says that every emitted declaration whose identifier differs from
  the schema name carries the schema name as a tag, top-level Element and
  Attribute among them. \<open>RubyElement\<close> writes an alias with no tag: for the
  Element \<open>customer-id\<close> of type \<open>string\<close> the identifier is \<open>Customerid\<close>
  and the text emitted is the comment and \<open>class Customerid < string; end\<close>,
  in which the schema name does not occur at all.
\<close>

theorem RubyElement_emits_no_tag:
  "genRubyFieldName (eName exCustomerId) = ''Customerid''
   \<and> genRubyFieldName (eName exCustomerId) \<noteq> eName exCustomerId
   \<and> Field (GenRubyLoop id (newGenerator [ElementNode exCustomerId]) [ElementNode exCustomerId])
       = TAB @ CR @ NL @ ''# Customerid ...'' @ CR @ NL @ TAB
           @ ''class Customerid < string; end'' @ NL
   \<and> \<not> sublist (eName exCustomerId)
         (Field (GenRubyLoop id (newGenerator [ElementNode exCustomerId])
            [ElementNode exCustomerId]))"
  by code_simp

text \<open>The documentation string of a node.\<close>

fun nodeDoc :: "node \<Rightarrow> string" where
  "nodeDoc NilNode = []"
| "nodeDoc (SimpleTypeNode v) = sDoc v"
| "nodeDoc (ComplexTypeNode v) = cDoc v"
| "nodeDoc (GroupNode v) = gDoc v"
| "nodeDoc (AttributeGroupNode v) = agDoc v"
| "nodeDoc (ElementNode v) = eDoc v"
| "nodeDoc (AttributeNode v) = aDoc v"

lemma tagLine_dquote: "CHR 0x22 \<in> set (tagLine y)"
  by (simp add: tagLine_def DQ_def)

lemma sublist_set: "sublist xs ys \<Longrightarrow> set xs \<subseteq> set ys"
  by (auto simp: sublist_def)

lemma upperASCII_dquote: "upperASCII c = CHR 0x22 \<longleftrightarrow> c = CHR 0x22"
  by (auto simp: upperASCII_def lowers_def uppers_def split: if_splits)

lemma MakeFirstUpperCase_no_dquote:
  "CHR 0x22 \<notin> set s \<Longrightarrow> CHR 0x22 \<notin> set (MakeFirstUpperCase s)"
proof (cases s)
  case Nil
  then show ?thesis by (simp add: MakeFirstUpperCase_def ToUpper1_def)
next
  case (Cons c cs)
  assume a: "CHR 0x22 \<notin> set s"
  have "MakeFirstUpperCase (c # cs) = ToUpper1 [c] @ cs"
    by (cases cs) (simp_all add: MakeFirstUpperCase_def ToUpper1_def)
  moreover have "CHR 0x22 \<noteq> upperASCII c"
    using Cons a upperASCII_dquote [of c] by auto
  ultimately show ?thesis using Cons a
    by (auto simp: ToUpper1_def)
qed

lemma Split_set: "p \<in> set (Split s sep) \<Longrightarrow> set p \<subseteq> set s"
proof (induction s arbitrary: p)
  case Nil
  then show ?case by simp
next
  case (Cons c cs)
  show ?case
  proof (cases "c = sep")
    case True
    then show ?thesis using Cons by auto
  next
    case False
    show ?thesis
    proof (cases "Split cs sep")
      case Nil
      then show ?thesis using Cons False by simp
    next
      case (Cons q qs)
      then have "p = c # q \<or> p \<in> set qs" using Cons.prems False by simp
      moreover have "set q \<subseteq> set cs" using Cons Cons.IH [of q] by simp
      moreover have "p \<in> set qs \<Longrightarrow> set p \<subseteq> set cs" using Cons Cons.IH [of p] by simp
      ultimately show ?thesis by auto
    qed
  qed
qed

lemma pieces_no_dquote:
  "CHR 0x22 \<notin> set s \<Longrightarrow> CHR 0x22 \<notin> set (concat (map MakeFirstUpperCase (Split s sep)))"
  using Split_set [of _ s sep] MakeFirstUpperCase_no_dquote by fastforce

lemma genRubyFieldName_no_dquote:
  "CHR 0x22 \<notin> set s \<Longrightarrow> CHR 0x22 \<notin> set (genRubyFieldName s)"
  using pieces_no_dquote [OF pieces_no_dquote, of s "CHR '':''" "CHR ''.''"]
  by (simp add: genRubyFieldName_def Let_def Remove_def)

lemma genFieldComment_no_dquote:
  "CHR 0x22 \<notin> set name \<Longrightarrow> CHR 0x22 \<notin> set doc \<Longrightarrow>
     CHR 0x22 \<notin> set (genFieldComment name doc ''#'')"
  by (auto simp: genFieldComment_def docReplacer_def CR_def NL_def split: if_splits)

lemma alias_declOf_no_dquote:
  assumes n: "nodeName n = Some x" and a: "\<not> isComposite n"
    and q: "CHR 0x22 \<notin> set x" "CHR 0x22 \<notin> set (nodeDoc n)"
      "CHR 0x22 \<notin> set (fragment ro tree n)"
  shows "CHR 0x22 \<notin> set (declOf ro tree n)"
proof -
  have c: "CHR 0x22 \<notin> set (genFieldComment (genRubyFieldName x) (nodeDoc n) ''#'')"
    using q by (simp add: genFieldComment_no_dquote genRubyFieldName_no_dquote)
  have i: "CHR 0x22 \<notin> set (genRubyFieldName x)"
    using q by (simp add: genRubyFieldName_no_dquote)
  show ?thesis
  proof (cases n)
    case NilNode
    then show ?thesis by simp
  next
    case (SimpleTypeNode v)
    then show ?thesis using n a c i q(3)
      by (auto simp: TAB_def NL_def simp del: fragment.simps)
  next
    case (ComplexTypeNode v)
    then show ?thesis using a by simp
  next
    case (GroupNode v)
    then show ?thesis using a by simp
  next
    case (AttributeGroupNode v)
    then show ?thesis using a by simp
  next
    case (ElementNode v)
    then show ?thesis using n c i q(3)
      by (auto simp: aliasDecl_def TAB_def NL_def)
  next
    case (AttributeNode v)
    then show ?thesis using n c i q(3)
      by (auto simp: aliasDecl_def TAB_def NL_def)
  qed
qed

lemma alias_fragment_blank:
  "nodeName n = Some x \<Longrightarrow> \<not> isComposite n \<Longrightarrow>
     \<exists>rest. fragment ro tree n = CHR '' '' # rest"
  by (cases n) (auto simp: aliasContent_def Let_def)

text \<open>
  Claim C4 as amended. A call of an emitter on a name that is not cached
  appends the declaration of the node and caches its fragment. For a node that
  is declared as a class with members, a ComplexType, a Group, an
  AttributeGroup or a union SimpleType with at least one member that is not a
  list, the fragment starts with the tag line of the schema name whenever the
  identifier differs from the name, and the emitter raises
  \<open>ImportEncodingXML\<close>. For every other node, a top-level Element or
  Attribute or a list or plain SimpleType, the declaration is the comment and
  one line \<open>class Identifier < type; end\<close>, made of the identifier, the
  documentation and the resolved type alone: the fragment starts with a blank
  and with no tag line, the flag stays as it was, and when neither the name,
  the documentation nor the fragment holds a double quote, the declaration
  holds no tag line of any name.
\<close>

theorem tag_line_on_composite_declarations_only:
  "nodeName n = Some x \<Longrightarrow> StructAST gen x = None \<Longrightarrow>
     Field (callRuby ro gen n) = Field gen @ declOf ro (ProtoTree gen) n
     \<and> StructAST (callRuby ro gen n) x = Some (fragment ro (ProtoTree gen) n)
     \<and> (isComposite n \<and> genRubyFieldName x \<noteq> x \<longrightarrow>
          sublist (tagLine x) (declOf ro (ProtoTree gen) n)
          \<and> prefix (tagLine x) (fragment ro (ProtoTree gen) n)
          \<and> ImportEncodingXML (callRuby ro gen n))
     \<and> (\<not> isComposite n \<longrightarrow>
          ImportEncodingXML (callRuby ro gen n) = ImportEncodingXML gen
          \<and> (\<forall>y. \<not> prefix (tagLine y) (fragment ro (ProtoTree gen) n))
          \<and> (\<forall>v. n = ElementNode v \<longrightarrow>
                declOf ro (ProtoTree gen) n
                  = TAB @ genFieldComment (genRubyFieldName x) (eDoc v) ''#'' @ TAB
                      @ ''class '' @ genRubyFieldName x @ '' < ''
                      @ (if ePlural v then ''Array'' else fieldType (eType v) (ProtoTree gen))
                      @ ''; end'' @ NL)
          \<and> (\<forall>v. n = AttributeNode v \<longrightarrow>
                declOf ro (ProtoTree gen) n
                  = TAB @ genFieldComment (genRubyFieldName x) (aDoc v) ''#'' @ TAB
                      @ ''class '' @ genRubyFieldName x @ '' < ''
                      @ (if aPlural v then ''Array'' else fieldType (aType v) (ProtoTree gen))
                      @ ''; end'' @ NL)
          \<and> (\<forall>v. n = SimpleTypeNode v \<and> sList v \<longrightarrow>
                declOf ro (ProtoTree gen) n
                  = genFieldComment (genRubyFieldName x) (sDoc v) ''#'' @ NL
                      @ ''class '' @ genRubyFieldName x @ '' < '' @ '' ''
                      @ genRubyFieldType (fieldType (sBase v) (ProtoTree gen))
                      @ ''; end'' @ NL)
          \<and> (\<forall>v. n = SimpleTypeNode v \<and> \<not> sList v \<longrightarrow>
                declOf ro (ProtoTree gen) n
                  = TAB @ genFieldComment (genRubyFieldName x) (sDoc v) ''#'' @ TAB
                      @ ''class '' @ genRubyFieldName x @ '' <'' @ '' ''
                      @ fieldType (sBase v) (ProtoTree gen) @ ''; end'' @ NL)
          \<and> (CHR 0x22 \<notin> set x \<and> CHR 0x22 \<notin> set (nodeDoc n)
                \<and> CHR 0x22 \<notin> set (fragment ro (ProtoTree gen) n)
              \<longrightarrow> (\<forall>y. \<not> sublist (tagLine y) (declOf ro (ProtoTree gen) n))))"
proof -
  assume n: "nodeName n = Some x" and fresh: "StructAST gen x = None"
  let ?tree = "ProtoTree gen"
  have F: "Field (callRuby ro gen n) = Field gen @ declOf ro ?tree n"
    by (simp add: callRuby_fresh [OF n fresh])
  have S: "StructAST (callRuby ro gen n) x = Some (fragment ro ?tree n)"
    by (simp add: callRuby_fresh [OF n fresh])
  have C: "isComposite n \<and> genRubyFieldName x \<noteq> x \<longrightarrow>
      sublist (tagLine x) (declOf ro ?tree n) \<and> prefix (tagLine x) (fragment ro ?tree n)
      \<and> ImportEncodingXML (callRuby ro gen n)"
  proof
    assume h: "isComposite n \<and> genRubyFieldName x \<noteq> x"
    then have comp: "isComposite n" and diff: "genRubyFieldName x \<noteq> x" by simp_all
    obtain rest where r: "fragment ro ?tree n = tagLine x @ rest"
      using composite_fragment [OF n comp diff] by blast
    obtain h t where d: "declOf ro ?tree n = h @ fragment ro ?tree n @ t"
      using composite_declOf [OF n comp] by blast
    have "declOf ro ?tree n = h @ tagLine x @ (rest @ t)"
      using d r by simp
    then have s: "sublist (tagLine x) (declOf ro ?tree n)"
      using sublist_middle [of "tagLine x" h "rest @ t"] by simp
    have p: "prefix (tagLine x) (fragment ro ?tree n)"
      using r by simp
    show "sublist (tagLine x) (declOf ro ?tree n) \<and> prefix (tagLine x) (fragment ro ?tree n)
      \<and> ImportEncodingXML (callRuby ro gen n)"
      using s p comp diff by (simp add: callRuby_fresh [OF n fresh])
  qed
  have A: "\<not> isComposite n \<longrightarrow>
      ImportEncodingXML (callRuby ro gen n) = ImportEncodingXML gen
      \<and> (\<forall>y. \<not> prefix (tagLine y) (fragment ro ?tree n))
      \<and> (CHR 0x22 \<notin> set x \<and> CHR 0x22 \<notin> set (nodeDoc n)
            \<and> CHR 0x22 \<notin> set (fragment ro ?tree n)
          \<longrightarrow> (\<forall>y. \<not> sublist (tagLine y) (declOf ro ?tree n)))"
  proof
    assume a: "\<not> isComposite n"
    have i: "ImportEncodingXML (callRuby ro gen n) = ImportEncodingXML gen"
      using a by (simp add: callRuby_fresh [OF n fresh])
    obtain rest where b: "fragment ro ?tree n = CHR '' '' # rest"
      using alias_fragment_blank [OF n a] by blast
    have p: "\<forall>y. \<not> prefix (tagLine y) (fragment ro ?tree n)"
      by (simp add: b tagLine_def TAB_def)
    have q: "CHR 0x22 \<notin> set x \<and> CHR 0x22 \<notin> set (nodeDoc n)
          \<and> CHR 0x22 \<notin> set (fragment ro ?tree n)
        \<longrightarrow> (\<forall>y. \<not> sublist (tagLine y) (declOf ro ?tree n))"
    proof (intro impI allI)
      fix y
      assume h: "CHR 0x22 \<notin> set x \<and> CHR 0x22 \<notin> set (nodeDoc n)
          \<and> CHR 0x22 \<notin> set (fragment ro ?tree n)"
      have "CHR 0x22 \<notin> set (declOf ro ?tree n)"
        using alias_declOf_no_dquote [OF n a, of ro ?tree] h by blast
      then show "\<not> sublist (tagLine y) (declOf ro ?tree n)"
        using sublist_set [of "tagLine y" "declOf ro ?tree n"] tagLine_dquote [of y] by blast
    qed
    show "ImportEncodingXML (callRuby ro gen n) = ImportEncodingXML gen
      \<and> (\<forall>y. \<not> prefix (tagLine y) (fragment ro ?tree n))
      \<and> (CHR 0x22 \<notin> set x \<and> CHR 0x22 \<notin> set (nodeDoc n)
            \<and> CHR 0x22 \<notin> set (fragment ro ?tree n)
          \<longrightarrow> (\<forall>y. \<not> sublist (tagLine y) (declOf ro ?tree n)))"
      using i p q by blast
  qed
  have E: "\<forall>v. n = ElementNode v \<longrightarrow>
      declOf ro ?tree n
        = TAB @ genFieldComment (genRubyFieldName x) (eDoc v) ''#'' @ TAB
            @ ''class '' @ genRubyFieldName x @ '' < ''
            @ (if ePlural v then ''Array'' else fieldType (eType v) ?tree)
            @ ''; end'' @ NL"
    using n by (auto simp: aliasDecl_def aliasContent_def Let_def)
  have T: "\<forall>v. n = AttributeNode v \<longrightarrow>
      declOf ro ?tree n
        = TAB @ genFieldComment (genRubyFieldName x) (aDoc v) ''#'' @ TAB
            @ ''class '' @ genRubyFieldName x @ '' < ''
            @ (if aPlural v then ''Array'' else fieldType (aType v) ?tree)
            @ ''; end'' @ NL"
    using n by (auto simp: aliasDecl_def aliasContent_def Let_def)
  have L: "\<forall>v. n = SimpleTypeNode v \<and> sList v \<longrightarrow>
      declOf ro ?tree n
        = genFieldComment (genRubyFieldName x) (sDoc v) ''#'' @ NL
            @ ''class '' @ genRubyFieldName x @ '' < '' @ '' ''
            @ genRubyFieldType (fieldType (sBase v) ?tree) @ ''; end'' @ NL"
    using n by auto
  have P: "\<not> isComposite n \<longrightarrow> (\<forall>v. n = SimpleTypeNode v \<and> \<not> sList v \<longrightarrow>
      declOf ro ?tree n
        = TAB @ genFieldComment (genRubyFieldName x) (sDoc v) ''#'' @ TAB
            @ ''class '' @ genRubyFieldName x @ '' <'' @ '' ''
            @ fieldType (sBase v) ?tree @ ''; end'' @ NL)"
    using n by auto
  show ?thesis using F S C A E T L P by blast
qed

theorem tag_line_on_composite_declarations_only_witness:
  "sublist (TAB @ TAB @ ''tag '' @ DQ @ ''customer-order'' @ DQ @ NL)
     (Field (callRuby id (newGenerator exTreeOrder) (ComplexTypeNode exCustomerOrder)))
   \<and> ImportEncodingXML (callRuby id (newGenerator exTreeOrder) (ComplexTypeNode exCustomerOrder))
   \<and> Field (callRuby id (newGenerator exTreeAttribute) (AttributeNode exCodeAttribute))
     = TAB @ genFieldComment ''Code'' [] ''#'' @ TAB @ ''class Code < Int; end'' @ NL
   \<and> \<not> sublist (tagLine ''Code'')
         (Field (callRuby id (newGenerator exTreeAttribute) (AttributeNode exCodeAttribute)))"
proof -
  have 1: "nodeName (ComplexTypeNode exCustomerOrder) = Some ''customer-order''"
    by code_simp
  have 2: "StructAST (newGenerator exTreeOrder) ''customer-order'' = None"
    by (simp add: newGenerator_def)
  have 3: "isComposite (ComplexTypeNode exCustomerOrder)
      \<and> genRubyFieldName ''customer-order'' \<noteq> ''customer-order''"
    by code_simp
  have fo: "Field (newGenerator exTreeOrder) = []"
    by (simp add: newGenerator_def)
  have a: "sublist (tagLine ''customer-order'')
        (Field (callRuby id (newGenerator exTreeOrder) (ComplexTypeNode exCustomerOrder)))
      \<and> ImportEncodingXML (callRuby id (newGenerator exTreeOrder)
            (ComplexTypeNode exCustomerOrder))"
    using tag_line_on_composite_declarations_only [OF 1 2, of id] 3 fo
    by (simp del: callRuby.simps declOf.simps fragment.simps isComposite.simps)
  have a': "sublist (TAB @ TAB @ ''tag '' @ DQ @ ''customer-order'' @ DQ @ NL)
        (Field (callRuby id (newGenerator exTreeOrder) (ComplexTypeNode exCustomerOrder)))
      \<and> ImportEncodingXML (callRuby id (newGenerator exTreeOrder)
            (ComplexTypeNode exCustomerOrder))"
    using a unfolding tagLine_def .
  have 4: "nodeName (AttributeNode exCodeAttribute) = Some ''Code''" by code_simp
  have 5: "StructAST (newGenerator exTreeAttribute) ''Code'' = None"
    by (simp add: newGenerator_def)
  have 6: "\<not> isComposite (AttributeNode exCodeAttribute)" by simp
  have 7: "CHR 0x22 \<notin> set ''Code''
      \<and> CHR 0x22 \<notin> set (nodeDoc (AttributeNode exCodeAttribute))
      \<and> CHR 0x22 \<notin> set (fragment id exTreeAttribute (AttributeNode exCodeAttribute))"
    by code_simp
  have 8: "genRubyFieldName ''Code'' = ''Code'' \<and> aDoc exCodeAttribute = []
      \<and> \<not> aPlural exCodeAttribute
      \<and> fieldType (aType exCodeAttribute) exTreeAttribute = ''Int''"
    by code_simp
  have fa: "Field (newGenerator exTreeAttribute) = []"
    by (simp add: newGenerator_def)
  have pt: "ProtoTree (newGenerator exTreeAttribute) = exTreeAttribute"
    by (simp add: newGenerator_def)
  have t: "Field (callRuby id (newGenerator exTreeAttribute) (AttributeNode exCodeAttribute))
        = Field (newGenerator exTreeAttribute)
            @ declOf id (ProtoTree (newGenerator exTreeAttribute))
                (AttributeNode exCodeAttribute)
      \<and> declOf id (ProtoTree (newGenerator exTreeAttribute)) (AttributeNode exCodeAttribute)
        = TAB @ genFieldComment (genRubyFieldName ''Code'') (aDoc exCodeAttribute) ''#'' @ TAB
            @ ''class '' @ genRubyFieldName ''Code'' @ '' < ''
            @ (if aPlural exCodeAttribute then ''Array''
               else fieldType (aType exCodeAttribute) (ProtoTree (newGenerator exTreeAttribute)))
            @ ''; end'' @ NL
      \<and> (CHR 0x22 \<notin> set ''Code''
            \<and> CHR 0x22 \<notin> set (nodeDoc (AttributeNode exCodeAttribute))
            \<and> CHR 0x22 \<notin> set (fragment id (ProtoTree (newGenerator exTreeAttribute))
                  (AttributeNode exCodeAttribute))
          \<longrightarrow> (\<forall>y. \<not> sublist (tagLine y)
                (declOf id (ProtoTree (newGenerator exTreeAttribute))
                  (AttributeNode exCodeAttribute))))"
    using tag_line_on_composite_declarations_only [OF 4 5, of id] 6 by blast
  note t' = t [unfolded pt]
  have fe: "Field (callRuby id (newGenerator exTreeAttribute) (AttributeNode exCodeAttribute))
      = declOf id exTreeAttribute (AttributeNode exCodeAttribute)"
    using t' fa by (simp del: callRuby.simps declOf.simps)
  have de: "declOf id exTreeAttribute (AttributeNode exCodeAttribute)
      = TAB @ genFieldComment ''Code'' [] ''#'' @ TAB @ ''class Code < Int; end'' @ NL"
    using t' 8 by (simp del: declOf.simps)
  have b: "Field (callRuby id (newGenerator exTreeAttribute) (AttributeNode exCodeAttribute))
      = TAB @ genFieldComment ''Code'' [] ''#'' @ TAB @ ''class Code < Int; end'' @ NL"
    using fe de by (simp only:)
  have c0: "\<forall>y. \<not> sublist (tagLine y)
      (declOf id exTreeAttribute (AttributeNode exCodeAttribute))"
    using t' 7 by blast
  have c: "\<not> sublist (tagLine ''Code'')
      (Field (callRuby id (newGenerator exTreeAttribute) (AttributeNode exCodeAttribute)))"
    using c0 unfolding fe by blast
  show ?thesis using a' b c by blast
qed

text \<open>
  The attribute and element members of a ComplexType and the top-level aliases
  do follow the flag: \<open>has_many\<close> against \<open>attribute\<close> or \<open>element\<close>, and
  \<open>Array\<close> against the resolved type.
\<close>

lemma members_and_aliases_follow_plural:
  "attributeMember tree a =
     memberLine (if aPlural a then ''has_many'' else ''attribute'')
       (ToSnakeCase (genRubyFieldName (aName a))) (fieldType (aType a) tree) (aName a)
   \<and> elementMember tree e =
     memberLine (if ePlural e then ''has_many'' else ''element'')
       (ToSnakeCase (genRubyFieldName (eName e))) (fieldType (eType e) tree) (eName e)
   \<and> aliasContent tree ref True = '' < Array; ''
   \<and> aliasContent tree ref False = '' < '' @ fieldType ref tree @ ''; ''"
  by (simp add: attributeMember_def elementMember_def aliasContent_def)

text \<open>
  Claim C7 says that a member or alias is emitted in the repeated form when
  the plurality flag is set and in the singular form when it is not, also for
  the element and group members of a Group and the group references of a
  ComplexType. For those members the source sets \<^verbatim>\<open>plural = ""\<close> when the
  flag is set, the value the variable already has: the member line is the same
  for both values of the flag, and so is the declaration of a Group.
\<close>

theorem group_members_ignore_plural:
  "groupMember tree (Group name doc ref True es gs)
     = groupMember tree (Group name doc ref False es gs)
   \<and> groupElementMember tree (e\<lparr>ePlural := True\<rparr>)
     = groupElementMember tree (e\<lparr>ePlural := False\<rparr>)
   \<and> Field (callRuby id (newGenerator []) (GroupNode exGroupPlural))
     = Field (callRuby id (newGenerator []) (GroupNode exGroupSingular))"
proof (intro conjI)
  show "groupMember tree (Group name doc ref True es gs)
      = groupMember tree (Group name doc ref False es gs)"
    by (simp add: groupMember_def)
  show "groupElementMember tree (e\<lparr>ePlural := True\<rparr>)
      = groupElementMember tree (e\<lparr>ePlural := False\<rparr>)"
    by (simp add: groupElementMember_def)
  show "Field (callRuby id (newGenerator []) (GroupNode exGroupPlural))
      = Field (callRuby id (newGenerator []) (GroupNode exGroupSingular))"
    by code_simp
qed

text \<open>
  Claim C2 says that two runs over the same tree give the same text, also for
  a union SimpleType with two members. The members are emitted in the order in
  which \<^verbatim>\<open>range\<close> visits the map, which Go leaves open: two runs that visit
  the entries of \<open>Currency\<close> as USD, EUR and as EUR, USD give different text.
\<close>

theorem union_members_follow_range_order:
  "rangeOrder id \<and> rangeOrder rev
   \<and> Field (GenRubyLoop id (newGenerator [SimpleTypeNode exCurrency])
        [SimpleTypeNode exCurrency])
     \<noteq> Field (GenRubyLoop rev (newGenerator [SimpleTypeNode exCurrency])
        [SimpleTypeNode exCurrency])"
proof (intro conjI)
  show "rangeOrder id" by (simp add: rangeOrder_def)
  show "rangeOrder rev" by (simp add: rangeOrder_def)
  show "Field (GenRubyLoop id (newGenerator [SimpleTypeNode exCurrency])
        [SimpleTypeNode exCurrency])
     \<noteq> Field (GenRubyLoop rev (newGenerator [SimpleTypeNode exCurrency])
        [SimpleTypeNode exCurrency])"
    by code_simp
qed

end
